theory Spec2Isabelle
  imports Main
begin

section \<open>The playRebus generation pipeline\<close>

text \<open>
  A shallow embedding of the Go backend's generation pipeline: the image-job client
  (\<open>internal/ai\<close>, image generator), the prompt source and its cache, the PostgreSQL
  gateway (\<open>internal/database\<close>), the store and the scheduler.

  Everything outside the process is an explicit part of the state: every HTTP endpoint
  has a script of the replies it will give, consumed one reply per request, and the
  database has a script of statement outcomes. Strings are \<open>char list\<close>s. Go errors
  are values of the datatype \<open>error\<close>; \<open>fmt.Errorf("ctx: %w", err)\<close> is \<open>Wrap ctx err\<close>.
\<close>

subsection \<open>JSON values and the decoding of \<open>encoding/json\<close>\<close>

text \<open>
  A JSON document that has passed the syntax check of \<open>encoding/json\<close>. A number keeps
  its literal; an object keeps its members in source order.
\<close>

datatype json =
    JNull
  | JBool bool
  | JNumber string
  | JString string
  | JArray "json list"
  | JObject "(string \<times> json) list"

text \<open>
  \<open>json.Unmarshal(raw, &s)\<close> with \<open>var s string\<close>: \<open>null\<close> leaves the zero value
  and is no error, a string is stored, every other value is an \<open>UnmarshalTypeError\<close>
  (\<open>None\<close>).
\<close>

fun unmarshal_string :: "json \<Rightarrow> string option" where
  "unmarshal_string JNull = Some []"
| "unmarshal_string (JString s) = Some s"
| "unmarshal_string _ = None"

text \<open>
  \<open>json.Unmarshal(raw, &xs)\<close> with \<open>var xs []string\<close>: \<open>null\<close> gives the nil slice,
  an array is decoded element by element, and an element that is neither a string nor
  \<open>null\<close> makes the call return an error.
\<close>

fun unmarshal_string_array :: "json \<Rightarrow> string list option" where
  "unmarshal_string_array JNull = Some []"
| "unmarshal_string_array (JArray xs) = those (map unmarshal_string xs)"
| "unmarshal_string_array _ = None"

text \<open>\<open>json.Unmarshal(raw, &xs)\<close> with \<open>var xs []interface{}\<close>.\<close>

fun unmarshal_any_array :: "json \<Rightarrow> json list option" where
  "unmarshal_any_array JNull = Some []"
| "unmarshal_any_array (JArray xs) = Some xs"
| "unmarshal_any_array _ = None"

subsection \<open>Errors\<close>

datatype error =
    OutputEmpty                 \<comment> \<open>output is empty\<close>
  | CouldNotExtract             \<comment> \<open>could not extract image URL from output\<close>
  | RequestNotCreated           \<comment> \<open>\<open>http.NewRequest\<close> failed\<close>
  | TransportFailed             \<comment> \<open>\<open>client.Do\<close> or \<open>http.Get\<close> failed\<close>
  | ReadFailed                  \<comment> \<open>\<open>io.ReadAll\<close> failed\<close>
  | DecodeFailed                \<comment> \<open>the body is not the JSON the call decodes\<close>
  | BadStatus nat               \<comment> \<open>an HTTP status the call rejects\<close>
  | PredictionFailed string     \<comment> \<open>prediction failed: msg\<close>
  | PredictionCanceled          \<comment> \<open>prediction was canceled\<close>
  | UnknownStatus string        \<comment> \<open>unknown prediction status: s\<close>
  | TimedOut nat                \<comment> \<open>prediction timed out after n attempts\<close>
  | NoLatestVersion             \<comment> \<open>no latest version found for model\<close>
  | AuthKeyMissing              \<comment> \<open>authentication failed: key not set\<close>
  | AuthKeyInvalid nat          \<comment> \<open>authentication failed: invalid or expired key\<close>
  | NoContent                   \<comment> \<open>no content in Claude response\<close>
  | NoJsonArray                 \<comment> \<open>could not find JSON array in Claude response\<close>
  | ExpectedFive nat            \<comment> \<open>expected 5 prompts, got n\<close>
  | SliceBoundsPanic            \<comment> \<open>runtime panic: slice bounds out of range\<close>
  | SqlFailed                   \<comment> \<open>an error of \<open>database/sql\<close>\<close>
  | StorageFailed               \<comment> \<open>the image could not be written\<close>
  | InvalidDateFormat           \<comment> \<open>invalid date format. Use YYYY-MM-DD\<close>
  | DateNotParsed               \<comment> \<open>\<open>time.Parse\<close> rejected the date\<close>
  | AlreadyExist string         \<comment> \<open>puzzles already exist for date\<close>
  | FailedToGenerateToday       \<comment> \<open>failed to generate puzzles for today\<close>
  | Wrap string error           \<comment> \<open>\<open>fmt.Errorf("ctx: %w", err)\<close>\<close>

subsection \<open>The image-job client: extracting the result locator\<close>

text \<open>
  \<open>OutputRaw\<close> is a \<open>json.RawMessage\<close> filled by the decoder from a document that
  passed the syntax check, so it is either empty (the \<open>output\<close> member is absent:
  \<open>None\<close>) or the text of one JSON value, \<open>null\<close> included.
\<close>

definition try_string :: "json \<Rightarrow> string option" where
  "try_string j =
     (case unmarshal_string j of
        Some urlString \<Rightarrow> if urlString \<noteq> [] then Some urlString else None
      | None \<Rightarrow> None)"

definition try_string_array :: "json \<Rightarrow> string option" where
  "try_string_array j =
     (case unmarshal_string_array j of
        Some urlArray \<Rightarrow>
          (case urlArray of
             [] \<Rightarrow> None
           | u # _ \<Rightarrow> if u \<noteq> [] then Some u else None)
      | None \<Rightarrow> None)"

definition try_any_array :: "json \<Rightarrow> string option" where
  "try_any_array j =
     (case unmarshal_any_array j of
        Some urlInterfaceArray \<Rightarrow>
          (case urlInterfaceArray of
             [] \<Rightarrow> None
           | JString url # _ \<Rightarrow> if url \<noteq> [] then Some url else None
           | _ # _ \<Rightarrow> None)
      | None \<Rightarrow> None)"

definition extractImageURL :: "json option \<Rightarrow> error + string" where
  "extractImageURL outputRaw =
     (case outputRaw of
        None \<Rightarrow> Inl OutputEmpty
      | Some j \<Rightarrow>
          (case try_string j of
             Some url \<Rightarrow> Inr url
           | None \<Rightarrow>
               (case try_string_array j of
                  Some url \<Rightarrow> Inr url
                | None \<Rightarrow>
                    (case try_any_array j of
                       Some url \<Rightarrow> Inr url
                     | None \<Rightarrow> Inl CouldNotExtract))))"

subsection \<open>The outside world\<close>

text \<open>
  What an HTTP call gives back: the request could not be built (\<open>http.NewRequest\<close>
  failed), the transport failed (\<open>client.Do\<close> returned an error), or a response with
  its status code and body. The body is kept as the value the call decodes it to.
\<close>

datatype 'a body = Unreadable | Undecodable | Decoded 'a

datatype 'a reply = NotSent | NoResponse | Response nat "'a body"

text \<open>The next reply of a script; an exhausted script is a service that is unreachable.\<close>

fun pop :: "'a reply list \<Rightarrow> 'a reply \<times> 'a reply list" where
  "pop [] = (NoResponse, [])"
| "pop (r # rs) = (r, rs)"

text \<open>A request reaches the service unless it could not be built.\<close>

fun sent :: "'a reply \<Rightarrow> nat" where
  "sent NotSent = 0"
| "sent _ = 1"

text \<open>
  The outcome of the next database statement, or of the next write to the image store:
  \<open>True\<close> is a failure, and an exhausted script never fails.
\<close>

fun pop_fault :: "bool list \<Rightarrow> bool \<times> bool list" where
  "pop_fault [] = (False, [])"
| "pop_fault (f # fs) = (f, fs)"

record Puzzle =
  ID :: string
  ImageURL :: string
  ImagePath :: string
  Answer :: string
  Hint :: string
  Date :: string
  Index :: int

record RebusPrompt =
  Prompt :: string
  PAnswer :: string
  PHint :: string

record ReplicatePrediction =
  PredID :: string
  Status :: string
  OutputRaw :: "json option"
  Error :: "string option"

text \<open>
  The state outside the Go structs: the \<open>puzzles\<close> table, the image store, the scripts
  of the external services with the number of requests that reached them, the seconds
  spent in \<open>time.Sleep\<close>, and the local clock (the date as \<open>GetTodayDate\<close> formats it and
  the nanoseconds since local midnight). The clock stands still during one call.
\<close>

record world =
  rows :: "Puzzle list"
  db_script :: "bool list"
  images :: "((string \<times> nat) \<times> string) list"
  image_script :: "bool list"
  claude_script :: "string list reply list"
  claude_requests :: nat
  model_script :: "string reply list"
  create_script :: "ReplicatePrediction reply list"
  poll_script :: "ReplicatePrediction reply list"
  poll_requests :: nat
  download_script :: "string reply list"
  slept :: nat
  today :: string
  time_of_day :: nat

subsection \<open>The image-job client: polling\<close>

definition maxAttempts :: nat where
  "maxAttempts = 60"

definition next_poll :: "world \<Rightarrow> ReplicatePrediction reply \<times> world" where
  "next_poll w =
     (case pop (poll_script w) of
        (r, rs) \<Rightarrow> (r, w\<lparr>poll_script := rs, poll_requests := poll_requests w + sent r\<rparr>))"

text \<open>
  \<open>pollPrediction\<close>: the loop \<open>for attempt < maxAttempts\<close>, started at \<open>attempt = 0\<close>.
  The response's status code is not looked at.
\<close>

function poll_loop :: "nat \<Rightarrow> world \<Rightarrow> (error + string) \<times> world" where
  "poll_loop attempt w =
     (if attempt < maxAttempts then
        (case next_poll w of
           (NotSent, w1) \<Rightarrow> (Inl (Wrap ''failed to create poll request'' RequestNotCreated), w1)
         | (NoResponse, w1) \<Rightarrow> (Inl (Wrap ''failed to poll prediction'' TransportFailed), w1)
         | (Response code Unreadable, w1) \<Rightarrow>
             (Inl (Wrap ''failed to read poll response'' ReadFailed), w1)
         | (Response code Undecodable, w1) \<Rightarrow>
             (Inl (Wrap ''failed to decode poll response'' DecodeFailed), w1)
         | (Response code (Decoded prediction), w1) \<Rightarrow>
             (if Status prediction = ''succeeded'' then
                (case extractImageURL (OutputRaw prediction) of
                   Inl err \<Rightarrow>
                     (Inl (Wrap ''prediction succeeded but failed to extract image URL'' err), w1)
                 | Inr imageURL \<Rightarrow> (Inr imageURL, w1))
              else if Status prediction = ''failed'' then
                (Inl (PredictionFailed
                   (case Error prediction of None \<Rightarrow> ''unknown error'' | Some m \<Rightarrow> m)), w1)
              else if Status prediction = ''canceled'' then (Inl PredictionCanceled, w1)
              else if Status prediction = ''starting'' \<or> Status prediction = ''processing'' then
                poll_loop (attempt + 1) (w1\<lparr>slept := slept w1 + 5\<rparr>)
              else (Inl (UnknownStatus (Status prediction)), w1)))
      else (Inl (TimedOut maxAttempts), w))"
  by pat_completeness auto
termination
  by (relation "measure (\<lambda>(attempt, w). maxAttempts - attempt)") auto

definition pollPrediction :: "string \<Rightarrow> world \<Rightarrow> (error + string) \<times> world" where
  "pollPrediction predictionID w = poll_loop 0 w"

subsection \<open>The image-job client: model version, submission, download\<close>

text \<open>
  What a request carries (the enhanced prompt, the width and height, the API key) does
  not decide what a script answers, so the payloads are not part of the model.
\<close>

record ImageGenerator =
  replicateAPIKey :: string
  model :: string
  modelVersion :: string

definition fetchLatestModelVersion :: "world \<Rightarrow> (error + string) \<times> world" where
  "fetchLatestModelVersion w =
     (case pop (model_script w) of
        (r, rs) \<Rightarrow>
          (case r of
             NotSent \<Rightarrow> Inl (Wrap ''failed to create request'' RequestNotCreated)
           | NoResponse \<Rightarrow> Inl (Wrap ''failed to fetch model info'' TransportFailed)
           | Response code b \<Rightarrow>
               if code \<noteq> 200 then Inl (Wrap ''failed to fetch model info'' (BadStatus code))
               else (case b of
                       Decoded latest \<Rightarrow>
                         if latest = [] then Inl NoLatestVersion else Inr latest
                     | _ \<Rightarrow> Inl (Wrap ''failed to decode model info'' DecodeFailed)),
           w\<lparr>model_script := rs\<rparr>))"

definition getModelVersion ::
  "ImageGenerator \<Rightarrow> world \<Rightarrow> (error + string) \<times> ImageGenerator \<times> world" where
  "getModelVersion ig w =
     (if modelVersion ig \<noteq> [] then (Inr (modelVersion ig), ig, w)
      else (case fetchLatestModelVersion w of
              (Inl err, w1) \<Rightarrow> (Inl (Wrap ''failed to fetch model version'' err), ig, w1)
            | (Inr version, w1) \<Rightarrow> (Inr version, ig\<lparr>modelVersion := version\<rparr>, w1)))"

definition createPrediction ::
  "ImageGenerator \<Rightarrow> world \<Rightarrow> (error + ReplicatePrediction) \<times> ImageGenerator \<times> world" where
  "createPrediction ig w =
     (case getModelVersion ig w of
        (Inl err, ig1, w1) \<Rightarrow> (Inl (Wrap ''failed to get model version'' err), ig1, w1)
      | (Inr version, ig1, w1) \<Rightarrow>
          (case pop (create_script w1) of
             (r, rs) \<Rightarrow>
               (case r of
                  NotSent \<Rightarrow> Inl (Wrap ''failed to create request'' RequestNotCreated)
                | NoResponse \<Rightarrow> Inl (Wrap ''failed to call Replicate API'' TransportFailed)
                | Response code b \<Rightarrow>
                    if code \<noteq> 201 \<and> code \<noteq> 200 then Inl (BadStatus code)
                    else (case b of
                            Decoded prediction \<Rightarrow> Inr prediction
                          | _ \<Rightarrow> Inl (Wrap ''failed to decode prediction response'' DecodeFailed)),
                ig1, w1\<lparr>create_script := rs\<rparr>)))"

text \<open>\<open>http.Get\<close> builds and sends the request in one call.\<close>

definition downloadImage :: "string \<Rightarrow> world \<Rightarrow> (error + string) \<times> world" where
  "downloadImage imageURL w =
     (case pop (download_script w) of
        (r, rs) \<Rightarrow>
          (case r of
             NotSent \<Rightarrow> Inl (Wrap ''failed to download image'' TransportFailed)
           | NoResponse \<Rightarrow> Inl (Wrap ''failed to download image'' TransportFailed)
           | Response code b \<Rightarrow>
               if code \<noteq> 200 then Inl (Wrap ''failed to download image'' (BadStatus code))
               else (case b of
                       Decoded imageData \<Rightarrow> Inr imageData
                     | _ \<Rightarrow> Inl (Wrap ''failed to read image data'' ReadFailed)),
           w\<lparr>download_script := rs\<rparr>))"

definition GenerateImageFromPrompt ::
  "ImageGenerator \<Rightarrow> string \<Rightarrow> world \<Rightarrow> (error + string) \<times> ImageGenerator \<times> world" where
  "GenerateImageFromPrompt ig prompt w =
     (case createPrediction ig w of
        (Inl err, ig1, w1) \<Rightarrow> (Inl (Wrap ''failed to create prediction'' err), ig1, w1)
      | (Inr prediction, ig1, w1) \<Rightarrow>
          (case pollPrediction (PredID prediction) w1 of
             (Inl err, w2) \<Rightarrow> (Inl (Wrap ''failed to get prediction result'' err), ig1, w2)
           | (Inr imageURL, w2) \<Rightarrow>
               (case downloadImage imageURL w2 of
                  (Inl err, w3) \<Rightarrow> (Inl (Wrap ''failed to download image'' err), ig1, w3)
                | (Inr imageData, w3) \<Rightarrow> (Inr imageData, ig1, w3))))"

subsection \<open>The prompt source and its cache\<close>

text \<open>
  Decoding into \<open>[]RebusPrompt\<close>. A member of an object is matched to a field by its
  key, exactly or ignoring case (only the ASCII letters are folded here, not the
  Unicode folds of \<open>encoding/json\<close> such as the long s); a member
  that matches no field is skipped; a matched member must be a string or \<open>null\<close>. A
  field no member gives keeps its zero value, the empty string: \<open>encoding/json\<close>
  reports no missing field.
\<close>

definition lower_char :: "char \<Rightarrow> char" where
  "lower_char c =
     (case map_of (zip ''ABCDEFGHIJKLMNOPQRSTUVWXYZ'' ''abcdefghijklmnopqrstuvwxyz'') c of
        Some l \<Rightarrow> l
      | None \<Rightarrow> c)"

definition fold_key :: "string \<Rightarrow> string" where
  "fold_key k = map lower_char k"

definition set_field :: "string \<Rightarrow> json \<Rightarrow> RebusPrompt \<Rightarrow> RebusPrompt option" where
  "set_field k v p =
     (if fold_key k = ''prompt'' then
        (case v of JString s \<Rightarrow> Some (p\<lparr>Prompt := s\<rparr>) | JNull \<Rightarrow> Some p | _ \<Rightarrow> None)
      else if fold_key k = ''answer'' then
        (case v of JString s \<Rightarrow> Some (p\<lparr>PAnswer := s\<rparr>) | JNull \<Rightarrow> Some p | _ \<Rightarrow> None)
      else if fold_key k = ''hint'' then
        (case v of JString s \<Rightarrow> Some (p\<lparr>PHint := s\<rparr>) | JNull \<Rightarrow> Some p | _ \<Rightarrow> None)
      else Some p)"

fun set_fields :: "(string \<times> json) list \<Rightarrow> RebusPrompt \<Rightarrow> RebusPrompt option" where
  "set_fields [] p = Some p"
| "set_fields ((k, v) # kvs) p =
     (case set_field k v p of None \<Rightarrow> None | Some p1 \<Rightarrow> set_fields kvs p1)"

fun unmarshal_prompt :: "json \<Rightarrow> RebusPrompt option" where
  "unmarshal_prompt JNull = Some \<lparr>Prompt = [], PAnswer = [], PHint = []\<rparr>"
| "unmarshal_prompt (JObject kvs) = set_fields kvs \<lparr>Prompt = [], PAnswer = [], PHint = []\<rparr>"
| "unmarshal_prompt _ = None"

fun unmarshal_prompts :: "json \<Rightarrow> RebusPrompt list option" where
  "unmarshal_prompts JNull = Some []"
| "unmarshal_prompts (JArray xs) = those (map unmarshal_prompt xs)"
| "unmarshal_prompts _ = None"

text \<open>\<open>strings.Index\<close> and \<open>strings.LastIndex\<close> for a one-byte separator; \<open>None\<close> is \<open>-1\<close>.\<close>

fun strings_Index :: "string \<Rightarrow> char \<Rightarrow> nat option" where
  "strings_Index [] c = None"
| "strings_Index (x # xs) c =
     (if x = c then Some 0
      else (case strings_Index xs c of None \<Rightarrow> None | Some i \<Rightarrow> Some (Suc i)))"

definition strings_LastIndex :: "string \<Rightarrow> char \<Rightarrow> nat option" where
  "strings_LastIndex s c =
     (case strings_Index (rev s) c of
        None \<Rightarrow> None
      | Some i \<Rightarrow> Some (length s - 1 - i))"

record PromptGenerator =
  claudeAPIKey :: string
  promptCache :: "string \<rightharpoonup> RebusPrompt list"

text \<open>
  \<open>GetPromptsFromClaude\<close>. The parameter \<open>parse\<close> is the syntax check and parser of
  \<open>encoding/json\<close> (\<open>None\<close>: a syntax error). The slice expression
  \<open>responseText[jsonStart : jsonEnd+1]\<close> panics when \<open>jsonEnd + 1 < jsonStart\<close>; the
  panic is carried as the error \<open>SliceBoundsPanic\<close>, which the callers hand on as they
  do an error (none of them recovers).
\<close>

definition GetPromptsFromClaude ::
  "(string \<Rightarrow> json option) \<Rightarrow> PromptGenerator \<Rightarrow> string \<Rightarrow> world \<Rightarrow>
     (error + RebusPrompt list) \<times> PromptGenerator \<times> world" where
  "GetPromptsFromClaude parse pg date w =
     (case promptCache pg date of
        Some prompts \<Rightarrow> (Inr prompts, pg, w)
      | None \<Rightarrow>
          (case pop (claude_script w) of
             (r, rs) \<Rightarrow>
               (let w1 = w\<lparr>claude_script := rs, claude_requests := claude_requests w + sent r\<rparr> in
                case r of
                  NotSent \<Rightarrow> (Inl (Wrap ''failed to create Claude request'' RequestNotCreated), pg, w1)
                | NoResponse \<Rightarrow> (Inl (Wrap ''failed to call Claude API'' TransportFailed), pg, w1)
                | Response code b \<Rightarrow>
                    if code \<noteq> 200 then
                      (if code = 401 then
                         (if claudeAPIKey pg = [] then (Inl AuthKeyMissing, pg, w1)
                          else (Inl (AuthKeyInvalid code), pg, w1))
                       else (Inl (BadStatus code), pg, w1))
                    else
                      (case b of
                         Unreadable \<Rightarrow>
                           (Inl (Wrap ''failed to decode Claude response'' DecodeFailed), pg, w1)
                       | Undecodable \<Rightarrow>
                           (Inl (Wrap ''failed to decode Claude response'' DecodeFailed), pg, w1)
                       | Decoded content \<Rightarrow>
                           (case content of
                              [] \<Rightarrow> (Inl NoContent, pg, w1)
                            | responseText # _ \<Rightarrow>
                                (case (strings_Index responseText CHR ''['',
                                       strings_LastIndex responseText CHR '']'') of
                                   (None, _) \<Rightarrow> (Inl NoJsonArray, pg, w1)
                                 | (Some jsonStart, None) \<Rightarrow> (Inl NoJsonArray, pg, w1)
                                 | (Some jsonStart, Some jsonEnd) \<Rightarrow>
                                     if jsonEnd + 1 < jsonStart then (Inl SliceBoundsPanic, pg, w1)
                                     else
                                       (let jsonText =
                                          take (jsonEnd + 1 - jsonStart) (drop jsonStart responseText)
                                        in case parse jsonText of
                                             None \<Rightarrow>
                                               (Inl (Wrap ''failed to parse prompts from Claude response''
                                                  DecodeFailed), pg, w1)
                                           | Some j \<Rightarrow>
                                               (case unmarshal_prompts j of
                                                  None \<Rightarrow>
                                                    (Inl (Wrap
                                                       ''failed to parse prompts from Claude response''
                                                       DecodeFailed), pg, w1)
                                                | Some prompts \<Rightarrow>
                                                    if length prompts \<noteq> 5
                                                    then (Inl (ExpectedFive (length prompts)), pg, w1)
                                                    else (Inr prompts,
                                                          pg\<lparr>promptCache :=
                                                               (promptCache pg)(date \<mapsto> prompts)\<rparr>,
                                                          w1)))))))))"

subsection \<open>The database gateway\<close>

text \<open>
  The table \<open>puzzles\<close> of \<open>InitSchema\<close>: \<open>id\<close> is the primary key, \<open>(date, index_num)\<close>
  is unique, the \<open>VARCHAR\<close> columns bound the lengths and \<open>index_num\<close> is a 32-bit
  integer. An \<open>INSERT\<close> that breaks one of these fails. (PostgreSQL would instead cut an
  over-long value whose excess is only spaces; that case counts as a failure here. The
  lengths are those of the \<open>char list\<close>, so they agree with PostgreSQL's character
  counts on ASCII values only.)
  Every statement takes its outcome from \<open>db_script\<close>, which stands for the connection
  and for every other error of the server.
\<close>

definition violates :: "Puzzle list \<Rightarrow> Puzzle \<Rightarrow> bool" where
  "violates table p \<longleftrightarrow>
     ID p \<in> set (map ID table) \<or>
     (Date p, Index p) \<in> set (map (\<lambda>q. (Date q, Index q)) table) \<or>
     50 < length (ID p) \<or> 10 < length (Date p) \<or> 255 < length (ImageURL p) \<or>
     500 < length (ImagePath p) \<or> 255 < length (Answer p) \<or>
     Index p < - 2147483648 \<or> 2147483647 < Index p"

text \<open>\<open>DB.HasPuzzlesForDate\<close>: \<open>SELECT COUNT(*) FROM puzzles WHERE date = $1\<close>.\<close>

definition DB_HasPuzzlesForDate :: "string \<Rightarrow> world \<Rightarrow> (bool \<times> error option) \<times> world" where
  "DB_HasPuzzlesForDate date w =
     (case pop_fault (db_script w) of
        (failed, fs) \<Rightarrow>
          (if failed then (False, Some (Wrap ''failed to check puzzles'' SqlFailed))
           else (0 < length (filter (\<lambda>p. Date p = date) (rows w)), None),
           w\<lparr>db_script := fs\<rparr>))"

text \<open>
  The loop of \<open>stmt.Exec\<close> calls inside the transaction: \<open>table\<close> is the table as the
  transaction sees it.
\<close>

fun insert_all ::
  "Puzzle list \<Rightarrow> Puzzle list \<Rightarrow> bool list \<Rightarrow> (error + Puzzle list) \<times> bool list" where
  "insert_all [] table fs = (Inr table, fs)"
| "insert_all (puzzle # puzzles) table fs =
     (case pop_fault fs of
        (failed, fs1) \<Rightarrow>
          if failed \<or> violates table puzzle
          then (Inl (Wrap (''failed to insert puzzle '' @ ID puzzle) SqlFailed), fs1)
          else insert_all puzzles (table @ [puzzle]) fs1)"

text \<open>
  \<open>DB.SavePuzzles\<close>: begin, delete the date's rows, prepare, insert, commit. The
  statements work on the transaction's view; only a commit that succeeds writes the
  view to \<open>rows\<close>. On every error return the deferred \<open>tx.Rollback()\<close> drops the view,
  and a commit that fails leaves the table as it was.
\<close>

definition DB_SavePuzzles :: "string \<Rightarrow> Puzzle list \<Rightarrow> world \<Rightarrow> error option \<times> world" where
  "DB_SavePuzzles date puzzles w =
     (case pop_fault (db_script w) of
        (True, fs1) \<Rightarrow>
          (Some (Wrap ''failed to begin transaction'' SqlFailed), w\<lparr>db_script := fs1\<rparr>)
      | (False, fs1) \<Rightarrow>
          (case pop_fault fs1 of
             (True, fs2) \<Rightarrow>
               (Some (Wrap ''failed to delete existing puzzles'' SqlFailed), w\<lparr>db_script := fs2\<rparr>)
           | (False, fs2) \<Rightarrow>
               (case pop_fault fs2 of
                  (True, fs3) \<Rightarrow>
                    (Some (Wrap ''failed to prepare statement'' SqlFailed), w\<lparr>db_script := fs3\<rparr>)
                | (False, fs3) \<Rightarrow>
                    (case insert_all puzzles (filter (\<lambda>p. Date p \<noteq> date) (rows w)) fs3 of
                       (Inl err, fs4) \<Rightarrow> (Some err, w\<lparr>db_script := fs4\<rparr>)
                     | (Inr table, fs4) \<Rightarrow>
                         (case pop_fault fs4 of
                            (True, fs5) \<Rightarrow>
                              (Some (Wrap ''failed to commit transaction'' SqlFailed),
                               w\<lparr>db_script := fs5\<rparr>)
                          | (False, fs5) \<Rightarrow>
                              (None, w\<lparr>rows := table, db_script := fs5\<rparr>))))))"

subsection \<open>The store\<close>

text \<open>
  \<open>filepath_Join\<close> is \<open>path/filepath.Join\<close>, taken as a parameter. The images are kept
  under the date and the index, which both backends turn into the file's name.
\<close>

record Store =
  imagesPath :: string
  useSupabase :: bool
  publicURL :: string
  filepath_Join :: "string \<Rightarrow> string \<Rightarrow> string"

text \<open>The verb \<open>%d\<close> of \<open>fmt\<close> for an index that is not negative.\<close>

fun show_nat :: "nat \<Rightarrow> string" where
  "show_nat n =
     (if n < 10 then [''0123456789'' ! n]
      else show_nat (n div 10) @ [''0123456789'' ! (n mod 10)])"

definition Store_SavePuzzles :: "string \<Rightarrow> Puzzle list \<Rightarrow> world \<Rightarrow> error option \<times> world" where
  "Store_SavePuzzles date puzzles w = DB_SavePuzzles date puzzles w"

definition Store_HasPuzzlesForDate :: "string \<Rightarrow> world \<Rightarrow> bool \<times> world" where
  "Store_HasPuzzlesForDate date w =
     (case DB_HasPuzzlesForDate date w of
        ((exists, Some err), w1) \<Rightarrow> (False, w1)
      | ((exists, None), w1) \<Rightarrow> (exists, w1))"

definition GetImagePath :: "Store \<Rightarrow> string \<Rightarrow> nat \<Rightarrow> string" where
  "GetImagePath st date index =
     (if useSupabase st then date @ ''/'' @ show_nat index @ ''.png''
      else filepath_Join st (imagesPath st) (date @ ''-'' @ show_nat index @ ''.png''))"

definition GetImageURL :: "Store \<Rightarrow> string \<Rightarrow> nat \<Rightarrow> string" where
  "GetImageURL st date index =
     (if useSupabase st then publicURL st @ ''/'' @ (date @ ''/'' @ show_nat index @ ''.png'')
      else ''/api/images/'' @ date @ ''-'' @ show_nat index @ ''.png'')"

definition SaveImage :: "Store \<Rightarrow> string \<Rightarrow> nat \<Rightarrow> string \<Rightarrow> world \<Rightarrow> error option \<times> world" where
  "SaveImage st date index imageData w =
     (case pop_fault (image_script w) of
        (True, fs) \<Rightarrow>
          (Some (if useSupabase st then Wrap ''failed to upload image to Supabase'' StorageFailed
                 else StorageFailed),
           w\<lparr>image_script := fs\<rparr>)
      | (False, fs) \<Rightarrow>
          (None,
           w\<lparr>image_script := fs,
              images := ((date, index), imageData) #
                        filter (\<lambda>e. fst e \<noteq> (date, index)) (images w)\<rparr>))"

definition GetTodayDate :: "world \<Rightarrow> string" where
  "GetTodayDate w = today w"

text \<open>
  \<open>ValidateDate\<close>: the format check, then \<open>time.Parse("2006-01-02", date)\<close>, which wants
  four digits, a month \<open>01\<close> to \<open>12\<close> and a day of that month.
\<close>

definition is_digit :: "char \<Rightarrow> bool" where
  "is_digit c \<longleftrightarrow> 48 \<le> (of_char c :: nat) \<and> (of_char c :: nat) \<le> 57"

definition number_of :: "string \<Rightarrow> nat" where
  "number_of s = foldl (\<lambda>n c. 10 * n + ((of_char c :: nat) - 48)) 0 s"

definition daysIn :: "nat \<Rightarrow> nat \<Rightarrow> nat" where
  "daysIn month year =
     (if month = 2 then
        (if year mod 4 = 0 \<and> (year mod 100 \<noteq> 0 \<or> year mod 400 = 0) then 29 else 28)
      else if month = 4 \<or> month = 6 \<or> month = 9 \<or> month = 11 then 30
      else 31)"

definition time_Parse_ok :: "string \<Rightarrow> bool" where
  "time_Parse_ok date \<longleftrightarrow>
     list_all is_digit (take 4 date) \<and> list_all is_digit (take 2 (drop 5 date)) \<and>
     list_all is_digit (take 2 (drop 8 date)) \<and>
     (let year = number_of (take 4 date); month = number_of (take 2 (drop 5 date));
          day = number_of (take 2 (drop 8 date))
      in 1 \<le> month \<and> month \<le> 12 \<and> 1 \<le> day \<and> day \<le> daysIn month year)"

definition ValidateDate :: "string \<Rightarrow> error option" where
  "ValidateDate date =
     (if length date \<noteq> 10 \<or> date ! 4 \<noteq> CHR ''-'' \<or> date ! 7 \<noteq> CHR ''-''
      then Some InvalidDateFormat
      else if time_Parse_ok date then None
      else Some (Wrap ''invalid date'' DateNotParsed))"

subsection \<open>The generator\<close>

text \<open>
  \<open>strings.TrimSpace\<close> and \<open>strings.ToLower\<close> on ASCII: the white space is tab, line
  feed, vertical tab, form feed, carriage return and space, the capitals are \<open>A\<close> to \<open>Z\<close>.
  The Unicode white space and capitals that Go also handles are left as they are.
\<close>

definition is_space :: "char \<Rightarrow> bool" where
  "is_space c \<longleftrightarrow> (of_char c :: nat) \<in> {9, 10, 11, 12, 13, 32}"

definition strings_TrimSpace :: "string \<Rightarrow> string" where
  "strings_TrimSpace s = rev (dropWhile is_space (rev (dropWhile is_space s)))"

definition strings_ToLower :: "string \<Rightarrow> string" where
  "strings_ToLower s = map lower_char s"

record RealAIGenerator =
  promptGenerator :: PromptGenerator
  imageGenerator :: ImageGenerator
  environment :: string

text \<open>The body of \<open>for i, prompt := range prompts\<close>, with the puzzles built so far.\<close>

fun generate_loop ::
  "Store \<Rightarrow> string \<Rightarrow> ImageGenerator \<Rightarrow> nat \<Rightarrow> RebusPrompt list \<Rightarrow> Puzzle list \<Rightarrow> world \<Rightarrow>
     (error + Puzzle list) \<times> ImageGenerator \<times> world" where
  "generate_loop st date ig i [] puzzles w = (Inr puzzles, ig, w)"
| "generate_loop st date ig i (prompt # prompts) puzzles w =
     (case GenerateImageFromPrompt ig (Prompt prompt) w of
        (Inl err, ig1, w1) \<Rightarrow>
          (Inl (Wrap (''failed to generate image for puzzle '' @ show_nat i) err), ig1, w1)
      | (Inr imageData, ig1, w1) \<Rightarrow>
          (case SaveImage st date i imageData w1 of
             (Some err, w2) \<Rightarrow>
               (Inl (Wrap (''failed to save image for puzzle '' @ show_nat i) err), ig1, w2)
           | (None, w2) \<Rightarrow>
               generate_loop st date ig1 (Suc i) prompts
                 (puzzles @
                  [\<lparr>ID = date @ ''-'' @ show_nat i,
                    ImageURL = GetImageURL st date i,
                    ImagePath = GetImagePath st date i,
                    Answer = strings_ToLower (strings_TrimSpace (PAnswer prompt)),
                    Hint = PHint prompt,
                    Date = date,
                    Index = int i\<rparr>])
                 w2))"

definition GenerateRebusPuzzles ::
  "(string \<Rightarrow> json option) \<Rightarrow> RealAIGenerator \<Rightarrow> string \<Rightarrow> Store \<Rightarrow> world \<Rightarrow>
     (error + Puzzle list) \<times> RealAIGenerator \<times> world" where
  "GenerateRebusPuzzles parse g date imageStore w =
     (case GetPromptsFromClaude parse (promptGenerator g) date w of
        (Inl err, pg1, w1) \<Rightarrow>
          (Inl (Wrap ''failed to get prompts from Claude'' err), g\<lparr>promptGenerator := pg1\<rparr>, w1)
      | (Inr prompts, pg1, w1) \<Rightarrow>
          (case generate_loop imageStore date (imageGenerator g) 0 prompts [] w1 of
             (result, ig1, w2) \<Rightarrow>
               (result, g\<lparr>promptGenerator := pg1, imageGenerator := ig1\<rparr>, w2)))"

subsection \<open>The scheduler\<close>

record Scheduler =
  store :: Store
  generator :: RealAIGenerator
  hour :: int
  minute :: int
  running :: bool

text \<open>What \<open>generatePuzzlesForToday\<close> writes to the log before it returns.\<close>

datatype logged =
    AlreadyExistSkipping        \<comment> \<open>Puzzles already exist for d, skipping\<close>
  | DoNotExistNotGenerating     \<comment> \<open>Puzzles do not exist for d, not generating\<close>
  | ErrorGenerating error       \<comment> \<open>Error generating puzzles\<close>
  | ErrorSaving error           \<comment> \<open>Error saving puzzles\<close>
  | SuccessfullySaved           \<comment> \<open>Successfully generated and saved 5 puzzles for d\<close>

text \<open>
  \<open>generatePuzzlesForToday\<close>, with its two existence checks in the order of the source.
  \<open>GenerateRebusPuzzles\<close> fills every element of the slice it returns, so the copy from
  pointers to values is the identity.
\<close>

definition generatePuzzlesForToday ::
  "(string \<Rightarrow> json option) \<Rightarrow> Scheduler \<Rightarrow> world \<Rightarrow> logged \<times> Scheduler \<times> world" where
  "generatePuzzlesForToday parse s w =
     (let today = GetTodayDate w in
      case Store_HasPuzzlesForDate today w of
        (True, w1) \<Rightarrow> (AlreadyExistSkipping, s, w1)
      | (False, w1) \<Rightarrow>
          (case Store_HasPuzzlesForDate today w1 of
             (False, w2) \<Rightarrow> (DoNotExistNotGenerating, s, w2)
           | (True, w2) \<Rightarrow>
               (case GenerateRebusPuzzles parse (generator s) today (store s) w2 of
                  (Inl err, g1, w3) \<Rightarrow> (ErrorGenerating err, s\<lparr>generator := g1\<rparr>, w3)
                | (Inr puzzles, g1, w3) \<Rightarrow>
                    (case Store_SavePuzzles today puzzles w3 of
                       (Some err, w4) \<Rightarrow> (ErrorSaving err, s\<lparr>generator := g1\<rparr>, w4)
                     | (None, w4) \<Rightarrow> (SuccessfullySaved, s\<lparr>generator := g1\<rparr>, w4)))))"

definition TriggerManualGeneration ::
  "(string \<Rightarrow> json option) \<Rightarrow> Scheduler \<Rightarrow> string \<Rightarrow> world \<Rightarrow> error option \<times> Scheduler \<times> world" where
  "TriggerManualGeneration parse s date w =
     (case ValidateDate date of
        Some err \<Rightarrow> (Some (Wrap ''invalid date'' err), s, w)
      | None \<Rightarrow>
          (case Store_HasPuzzlesForDate date w of
             (True, w1) \<Rightarrow> (Some (AlreadyExist date), s, w1)
           | (False, w1) \<Rightarrow>
               (case GenerateRebusPuzzles parse (generator s) date (store s) w1 of
                  (Inl err, g1, w2) \<Rightarrow>
                    (Some (Wrap ''failed to generate puzzles'' err), s\<lparr>generator := g1\<rparr>, w2)
                | (Inr puzzles, g1, w2) \<Rightarrow>
                    (case Store_SavePuzzles date puzzles w2 of
                       (err, w3) \<Rightarrow> (err, s\<lparr>generator := g1\<rparr>, w3)))))"

definition TriggerTodayGeneration ::
  "(string \<Rightarrow> json option) \<Rightarrow> Scheduler \<Rightarrow> world \<Rightarrow> (bool \<times> error option) \<times> Scheduler \<times> world" where
  "TriggerTodayGeneration parse s w =
     (let today = GetTodayDate w in
      case Store_HasPuzzlesForDate today w of
        (True, w1) \<Rightarrow> ((False, None), s, w1)
      | (False, w1) \<Rightarrow>
          (case generatePuzzlesForToday parse s w1 of
             (l, s1, w2) \<Rightarrow>
               (case Store_HasPuzzlesForDate today w2 of
                  (False, w3) \<Rightarrow> ((False, Some FailedToGenerateToday), s1, w3)
                | (True, w3) \<Rightarrow> ((True, None), s1, w3))))"

text \<open>
  \<open>checkAndRunIfNeeded\<close>: \<open>now.After(scheduledTime)\<close> compares the nanoseconds since
  local midnight with those of the configured hour and minute. The result says what
  \<open>generatePuzzlesForToday\<close> logged, if it was called.
\<close>

definition checkAndRunIfNeeded ::
  "(string \<Rightarrow> json option) \<Rightarrow> Scheduler \<Rightarrow> world \<Rightarrow> logged option \<times> Scheduler \<times> world" where
  "checkAndRunIfNeeded parse s w =
     (let today = GetTodayDate w in
      case Store_HasPuzzlesForDate today w of
        (True, w1) \<Rightarrow> (None, s, w1)
      | (False, w1) \<Rightarrow>
          if (hour s * 60 + minute s) * 60 * 1000000000 < int (time_of_day w1)
          then (case generatePuzzlesForToday parse s w1 of (l, s1, w2) \<Rightarrow> (Some l, s1, w2))
          else (None, s, w1))"

text \<open>
  \<open>Start\<close>, up to \<open>go s.run()\<close>: the timer loop it starts runs beside the caller and
  is not part of this function.
\<close>

definition Start ::
  "(string \<Rightarrow> json option) \<Rightarrow> Scheduler \<Rightarrow> world \<Rightarrow> logged option \<times> Scheduler \<times> world" where
  "Start parse s w =
     (if running s then (None, s, w)
      else checkAndRunIfNeeded parse (s\<lparr>running := True\<rparr>) w)"

subsection \<open>Predicates and concrete inputs used in the statements\<close>

text \<open>The statuses on which \<open>pollPrediction\<close> sleeps and polls again.\<close>

definition in_progress :: "ReplicatePrediction \<Rightarrow> bool" where
  "in_progress p \<longleftrightarrow> Status p = ''starting'' \<or> Status p = ''processing''"

fun still_running :: "ReplicatePrediction reply \<Rightarrow> bool" where
  "still_running (Response code (Decoded p)) = in_progress p"
| "still_running _ = False"

text \<open>
  A world with an empty table, no stored image and every script exhausted, on
  2025-12-13 at midnight; and a poll reply with status 200.
\<close>

definition quiet_world :: world where
  "quiet_world =
     \<lparr>rows = [], db_script = [], images = [], image_script = [], claude_script = [],
      claude_requests = 0, model_script = [], create_script = [], poll_script = [],
      poll_requests = 0, download_script = [], slept = 0, today = ''2025-12-13'',
      time_of_day = 0\<rparr>"

definition job :: "string \<Rightarrow> json option \<Rightarrow> ReplicatePrediction reply" where
  "job st out =
     Response 200 (Decoded \<lparr>PredID = ''j1'', Status = st, OutputRaw = out, Error = None\<rparr>)"

text \<open>
  The batch the constraints of the table admit: the inserts of \<open>insert_all\<close> on a
  connection that does not fail.
\<close>

fun accepts :: "Puzzle list \<Rightarrow> Puzzle list \<Rightarrow> bool" where
  "accepts table [] = True"
| "accepts table (p # ps) = (\<not> violates table p \<and> accepts (table @ [p]) ps)"

text \<open>
  A puzzle of a date and position, a parser that rejects every text, and a scheduler
  set to 06:00 with the file-system store, an empty prompt cache and no cached model
  version. Its \<open>filepath_Join\<close> only puts a slash between the two parts; it does not
  clean the path as \<open>path/filepath.Join\<close> does.
\<close>

definition puzzle_at :: "string \<Rightarrow> nat \<Rightarrow> string \<Rightarrow> Puzzle" where
  "puzzle_at date i answer =
     \<lparr>ID = date @ ''-'' @ show_nat i,
      ImageURL = ''/api/images/'' @ date @ ''-'' @ show_nat i @ ''.png'',
      ImagePath = ''images/'' @ date @ ''-'' @ show_nat i @ ''.png'',
      Answer = answer, Hint = ''a hint'', Date = date, Index = int i\<rparr>"

definition no_parse :: "string \<Rightarrow> json option" where
  "no_parse text = None"

definition scheduler_0600 :: Scheduler where
  "scheduler_0600 =
     \<lparr>store = \<lparr>imagesPath = ''./storage/images'', useSupabase = False, publicURL = [],
               filepath_Join = (\<lambda>dir name. dir @ ''/'' @ name)\<rparr>,
      generator =
        \<lparr>promptGenerator = \<lparr>claudeAPIKey = ''key'', promptCache = Map.empty\<rparr>,
         imageGenerator = \<lparr>replicateAPIKey = ''key'', model = ''black-forest-labs/flux-1.1-pro'',
                           modelVersion = []\<rparr>,
         environment = ''local''\<rparr>,
      hour = 6, minute = 0, running = False\<rparr>"

text \<open>
  A reply of the prompt service: prose around a JSON array of five objects with the
  members \<open>prompt\<close>, \<open>answer\<close> and \<open>hint\<close>. \<open>parse_batch\<close> gives what \<open>encoding/json\<close>
  parses from that array and from the array of five empty objects, and rejects every
  other text. \<open>ready_world\<close> is \<open>quiet_world\<close> at 07:00 with every service ready to
  deliver one batch: the reply above, the model's version, and for each of five images
  a created job, a poll reply \<open>succeeded\<close> with a string output and the image bytes.
\<close>

definition dq :: "string \<Rightarrow> string" where
  "dq s = CHR 0x22 # s @ [CHR 0x22]"

definition object_text :: "string \<Rightarrow> string \<Rightarrow> string \<Rightarrow> string" where
  "object_text p a h =
     ''{'' @ dq ''prompt'' @ '':'' @ dq p @ '','' @ dq ''answer'' @ '':'' @ dq a @ '','' @
     dq ''hint'' @ '':'' @ dq h @ ''}''"

definition batch_text :: string where
  "batch_text =
     ''['' @ object_text ''p0'' ''Time Flies'' ''h0'' @ '','' @ object_text ''p1'' ''a1'' ''h1'' @ '','' @
     object_text ''p2'' ''a2'' ''h2'' @ '','' @ object_text ''p3'' ''a3'' ''h3'' @ '','' @
     object_text ''p4'' ''a4'' ''h4'' @ '']''"

definition object_json :: "string \<Rightarrow> string \<Rightarrow> string \<Rightarrow> json" where
  "object_json p a h = JObject [(''prompt'', JString p), (''answer'', JString a), (''hint'', JString h)]"

definition batch_json :: json where
  "batch_json =
     JArray [object_json ''p0'' ''Time Flies'' ''h0'', object_json ''p1'' ''a1'' ''h1'',
             object_json ''p2'' ''a2'' ''h2'', object_json ''p3'' ''a3'' ''h3'',
             object_json ''p4'' ''a4'' ''h4'']"

definition parse_batch :: "string \<Rightarrow> json option" where
  "parse_batch text =
     (if text = batch_text then Some batch_json
      else if text = ''[{},{},{},{},{}]''
      then Some (JArray [JObject [], JObject [], JObject [], JObject [], JObject []])
      else None)"

definition reply_text :: string where
  "reply_text = ''Here they are: '' @ batch_text @ '' Enjoy!''"

definition created :: "ReplicatePrediction reply" where
  "created =
     Response 201 (Decoded \<lparr>PredID = ''j1'', Status = ''starting'', OutputRaw = None, Error = None\<rparr>)"

definition rendered :: "ReplicatePrediction reply" where
  "rendered = job ''succeeded'' (Some (JString ''https://x/a.png''))"

definition png :: "string reply" where
  "png = Response 200 (Decoded ''PNG'')"

definition ready_world :: world where
  "ready_world =
     quiet_world
       \<lparr>claude_script := [Response 200 (Decoded [reply_text])],
        model_script := [Response 200 (Decoded ''v1'')],
        create_script := [created, created, created, created, created],
        poll_script := [rendered, rendered, rendered, rendered, rendered],
        download_script := [png, png, png, png, png],
        time_of_day := 7 * 3600 * 1000000000\<rparr>"

definition batch_prompts :: "RebusPrompt list" where
  "batch_prompts =
     [\<lparr>Prompt = ''p0'', PAnswer = ''Time Flies'', PHint = ''h0''\<rparr>,
      \<lparr>Prompt = ''p1'', PAnswer = ''a1'', PHint = ''h1''\<rparr>,
      \<lparr>Prompt = ''p2'', PAnswer = ''a2'', PHint = ''h2''\<rparr>,
      \<lparr>Prompt = ''p3'', PAnswer = ''a3'', PHint = ''h3''\<rparr>,
      \<lparr>Prompt = ''p4'', PAnswer = ''a4'', PHint = ''h4''\<rparr>]"


definition fresh_prompts :: PromptGenerator where
  "fresh_prompts = \<lparr>claudeAPIKey = ''key'', promptCache = Map.empty\<rparr>"

section \<open>Properties\<close>

declare poll_loop.simps [simp del]

subsection \<open>Extracting the result locator\<close>

lemma try_string_iff: "try_string j = Some u \<longleftrightarrow> j = JString u \<and> u \<noteq> []"
  by (cases j) (auto simp: try_string_def)

lemma try_string_array_Cons:
  "try_string_array (JArray (x # rest)) = Some u \<longleftrightarrow>
     u \<noteq> [] \<and> x = JString u \<and> those (map unmarshal_string rest) \<noteq> None"
proof (cases "unmarshal_string x")
  case None
  then have "x \<noteq> JString u" by auto
  with None show ?thesis by (simp add: try_string_array_def)
next
  case (Some s)
  then have x: "x = JNull \<and> s = [] \<or> x = JString s"
    by (cases x) auto
  show ?thesis
  proof (cases "those (map unmarshal_string rest)")
    case None
    with Some show ?thesis by (simp add: try_string_array_def)
  next
    case (Some ys)
    with \<open>unmarshal_string x = Some s\<close> have "try_string_array (JArray (x # rest)) =
        (if s \<noteq> [] then Some s else None)"
      by (simp add: try_string_array_def)
    with x Some show ?thesis by auto
  qed
qed

lemma try_string_array_iff:
  "try_string_array j = Some u \<longleftrightarrow>
     u \<noteq> [] \<and> (\<exists>rest. j = JArray (JString u # rest) \<and> those (map unmarshal_string rest) \<noteq> None)"
proof (cases j)
  case (JArray xs)
  show ?thesis
  proof (cases xs)
    case Nil
    with JArray show ?thesis by (simp add: try_string_array_def)
  next
    case (Cons x rest)
    with JArray show ?thesis
      using try_string_array_Cons[of x rest u] by auto
  qed
qed (simp_all add: try_string_array_def)

lemma try_any_array_iff:
  "try_any_array j = Some u \<longleftrightarrow> u \<noteq> [] \<and> (\<exists>rest. j = JArray (JString u # rest))"
proof (cases j)
  case (JArray xs)
  show ?thesis
  proof (cases xs)
    case Nil
    with JArray show ?thesis by (simp add: try_any_array_def)
  next
    case (Cons x rest)
    with JArray show ?thesis
      by (cases x) (auto simp: try_any_array_def)
  qed
qed (auto simp: try_any_array_def)

lemma extractImageURL_Inr_iff:
  "extractImageURL raw = Inr u \<longleftrightarrow>
     u \<noteq> [] \<and> (raw = Some (JString u) \<or> (\<exists>rest. raw = Some (JArray (JString u # rest))))"
proof (cases raw)
  case None
  then show ?thesis by (simp add: extractImageURL_def)
next
  case (Some j)
  show ?thesis
  proof (cases "try_string j")
    case s1: (Some v)
    then have j: "j = JString v" "v \<noteq> []" by (simp_all add: try_string_iff)
    show ?thesis using s1 j Some by (auto simp: extractImageURL_def)
  next
    case n1: None
    then have nj: "\<And>v. v \<noteq> [] \<Longrightarrow> j \<noteq> JString v"
      using try_string_iff[of j] by auto
    show ?thesis
    proof (cases "try_string_array j")
      case s2: (Some v)
      then obtain rest where j: "j = JArray (JString v # rest)" "v \<noteq> []"
        by (auto simp: try_string_array_iff)
      show ?thesis using n1 s2 j Some by (auto simp: extractImageURL_def)
    next
      case n2: None
      have "extractImageURL raw = Inr u \<longleftrightarrow> try_any_array j = Some u"
        using n1 n2 Some by (auto simp: extractImageURL_def split: option.splits)
      then show ?thesis using nj Some by (auto simp: try_any_array_iff)
    qed
  qed
qed

text \<open>
  Claim C9, as amended. The extraction returns \<open>u\<close> exactly when \<open>u\<close> is not empty and
  the output is the string \<open>u\<close> or an array whose first element is the string \<open>u\<close> (of
  one element or of several, whatever the others are). The string decoding takes the
  single string, the decoding as array of strings takes an array of strings and
  \<open>null\<close>s, and the decoding as array of any takes the first string of every other
  array; they are tried in this order and the first that gives a string decides. The
  outputs \<open>null\<close> and \<open>[]\<close> fail with the error "could not extract image
  URL", an absent output with "output is empty".
\<close>

theorem extractImageURL_shapes:
  "(extractImageURL raw = Inr u \<longleftrightarrow>
      u \<noteq> [] \<and> (raw = Some (JString u) \<or> (\<exists>rest. raw = Some (JArray (JString u # rest))))) \<and>
   (try_string j = Some u \<longleftrightarrow> j = JString u \<and> u \<noteq> []) \<and>
   (try_string_array j = Some u \<longleftrightarrow>
      u \<noteq> [] \<and> (\<exists>rest. j = JArray (JString u # rest) \<and> those (map unmarshal_string rest) \<noteq> None)) \<and>
   (try_any_array j = Some u \<longleftrightarrow> u \<noteq> [] \<and> (\<exists>rest. j = JArray (JString u # rest))) \<and>
   extractImageURL (Some j) =
     (case try_string j of
        Some url \<Rightarrow> Inr url
      | None \<Rightarrow>
          (case try_string_array j of
             Some url \<Rightarrow> Inr url
           | None \<Rightarrow>
               (case try_any_array j of Some url \<Rightarrow> Inr url | None \<Rightarrow> Inl CouldNotExtract))) \<and>
   extractImageURL (Some JNull) = Inl CouldNotExtract \<and>
   extractImageURL (Some (JArray [])) = Inl CouldNotExtract \<and>
   extractImageURL None = Inl OutputEmpty"
proof -
  have order: "extractImageURL (Some j) =
     (case try_string j of
        Some url \<Rightarrow> Inr url
      | None \<Rightarrow>
          (case try_string_array j of
             Some url \<Rightarrow> Inr url
           | None \<Rightarrow>
               (case try_any_array j of Some url \<Rightarrow> Inr url | None \<Rightarrow> Inl CouldNotExtract)))"
    by (simp add: extractImageURL_def)
  have n: "extractImageURL (Some JNull) = Inl CouldNotExtract"
    by (simp add: extractImageURL_def try_string_def try_string_array_def try_any_array_def)
  have e: "extractImageURL (Some (JArray [])) = Inl CouldNotExtract"
    by (simp add: extractImageURL_def try_string_def try_string_array_def try_any_array_def)
  have a: "extractImageURL None = Inl OutputEmpty"
    by (simp add: extractImageURL_def)
  note s0 = extractImageURL_Inr_iff [of raw u]
  note s1 = try_string_iff [of j u]
  note s2 = try_string_array_iff [of j u]
  note s3 = try_any_array_iff [of j u]
  show ?thesis
    by (intro conjI; (rule s0 s1 s2 s3 order n e a))
qed

text \<open>
  Claim C9 as stated fails: the empty string is a single string, and an array may
  start with something that is no string.
\<close>

theorem extractImageURL_empty_string_counterexample:
  "extractImageURL (Some (JString [])) = Inl CouldNotExtract \<and>
   extractImageURL (Some (JArray [JString []])) = Inl CouldNotExtract \<and>
   extractImageURL (Some (JArray [JNumber ''5'', JString ''https://x/a.png''])) =
     Inl CouldNotExtract"
  by (simp add: extractImageURL_def try_string_def try_string_array_def try_any_array_def)

subsection \<open>Polling\<close>

lemma poll_loop_step:
  assumes "still_running r" "attempt < maxAttempts" "poll_script w = r # rest"
  shows "poll_loop attempt w =
     poll_loop (Suc attempt)
       (w\<lparr>poll_script := rest, poll_requests := poll_requests w + 1, slept := slept w + 5\<rparr>)"
proof -
  from assms(1) obtain code p where r: "r = Response code (Decoded p)" and p: "in_progress p"
    by (cases r rule: still_running.cases) auto
  from p have ns: "Status p \<noteq> ''succeeded''" "Status p \<noteq> ''failed''" "Status p \<noteq> ''canceled''"
    by (auto simp: in_progress_def)
  have np: "next_poll w = (r, w\<lparr>poll_script := rest, poll_requests := poll_requests w + 1\<rparr>)"
    using assms(3) r by (simp add: next_poll_def)
  show ?thesis
    using assms(2) p ns
    by (subst poll_loop.simps) (simp add: np r in_progress_def)
qed

lemma poll_loop_run:
  "list_all still_running rs \<Longrightarrow> attempt + length rs \<le> maxAttempts \<Longrightarrow>
   poll_script w = rs @ rest \<Longrightarrow>
   poll_loop attempt w =
     poll_loop (attempt + length rs)
       (w\<lparr>poll_script := rest, poll_requests := poll_requests w + length rs,
          slept := slept w + 5 * length rs\<rparr>)"
proof (induction rs arbitrary: attempt w)
  case Nil
  then have "rest = poll_script w" by simp
  then show ?case by simp
next
  case (Cons r rs)
  let ?w1 = "w\<lparr>poll_script := rs @ rest, poll_requests := poll_requests w + 1, slept := slept w + 5\<rparr>"
  have "poll_loop attempt w = poll_loop (Suc attempt) ?w1"
    using Cons.prems by (intro poll_loop_step[where r = r]) auto
  also have "\<dots> = poll_loop (Suc attempt + length rs)
       (?w1\<lparr>poll_script := rest, poll_requests := poll_requests ?w1 + length rs,
          slept := slept ?w1 + 5 * length rs\<rparr>)"
    using Cons.prems by (intro Cons.IH) auto
  finally show ?case by (simp add: algebra_simps)
qed

lemma poll_loop_exhausted: "poll_loop maxAttempts w = (Inl (TimedOut maxAttempts), w)"
  by (subst poll_loop.simps) simp

lemma poll_loop_verdict:
  assumes "attempt < maxAttempts" "poll_script w = Response code (Decoded p) # rest"
    "\<not> in_progress p"
  shows "poll_loop attempt w =
     ((if Status p = ''succeeded'' then
         (case extractImageURL (OutputRaw p) of
            Inl err \<Rightarrow> Inl (Wrap ''prediction succeeded but failed to extract image URL'' err)
          | Inr imageURL \<Rightarrow> Inr imageURL)
       else if Status p = ''failed'' then
         Inl (PredictionFailed (case Error p of None \<Rightarrow> ''unknown error'' | Some m \<Rightarrow> m))
       else if Status p = ''canceled'' then Inl PredictionCanceled
       else Inl (UnknownStatus (Status p))),
      w\<lparr>poll_script := rest, poll_requests := poll_requests w + 1\<rparr>)"
proof -
  have np: "next_poll w = (Response code (Decoded p),
      w\<lparr>poll_script := rest, poll_requests := poll_requests w + 1\<rparr>)"
    using assms(2) by (simp add: next_poll_def)
  show ?thesis
    using assms(1,3)
    by (subst poll_loop.simps) (simp add: np in_progress_def split: sum.splits)
qed

text \<open>
  Claim C8, as amended. While the replies carry the status \<open>starting\<close> or \<open>processing\<close>,
  \<open>pollPrediction\<close> sleeps 5 seconds after each and polls again. Sixty such replies end
  it with the time-out error, after exactly 60 requests and 300 seconds of sleep. A
  reply with any other status before that ends the polling at once: \<open>succeeded\<close> with
  the extracted locator or the extraction's error, \<open>failed\<close> with the service's message
  (or "unknown error"), \<open>canceled\<close> with the cancellation error, and every other status
  with the error "unknown prediction status".
\<close>

theorem pollPrediction_protocol:
  assumes "list_all still_running rs" and "poll_script w = rs @ rest"
  shows "(maxAttempts \<le> length rs \<longrightarrow>
            pollPrediction pid w =
              (Inl (TimedOut 60),
               w\<lparr>poll_script := drop 60 rs @ rest, poll_requests := poll_requests w + 60,
                  slept := slept w + 300\<rparr>)) \<and>
         (length rs < maxAttempts \<longrightarrow>
            (\<forall>code p rest'. rest = Response code (Decoded p) # rest' \<and> \<not> in_progress p \<longrightarrow>
               pollPrediction pid w =
                 ((if Status p = ''succeeded'' then
                     (case extractImageURL (OutputRaw p) of
                        Inl err \<Rightarrow>
                          Inl (Wrap ''prediction succeeded but failed to extract image URL'' err)
                      | Inr imageURL \<Rightarrow> Inr imageURL)
                   else if Status p = ''failed'' then
                     Inl (PredictionFailed
                       (case Error p of None \<Rightarrow> ''unknown error'' | Some m \<Rightarrow> m))
                   else if Status p = ''canceled'' then Inl PredictionCanceled
                   else Inl (UnknownStatus (Status p))),
                  w\<lparr>poll_script := rest', poll_requests := poll_requests w + length rs + 1,
                     slept := slept w + 5 * length rs\<rparr>)))"
proof (intro conjI impI allI)
  assume long: "maxAttempts \<le> length rs"
  have split: "poll_script w = take 60 rs @ (drop 60 rs @ rest)"
    using assms(2) by simp
  have all: "list_all still_running (take 60 rs)"
    using assms(1) by (auto simp: list_all_iff dest: in_set_takeD)
  have len: "length (take 60 rs) = 60"
    using long by (simp add: maxAttempts_def)
  have "poll_loop 0 w =
      poll_loop (0 + length (take 60 rs))
        (w\<lparr>poll_script := drop 60 rs @ rest,
           poll_requests := poll_requests w + length (take 60 rs),
           slept := slept w + 5 * length (take 60 rs)\<rparr>)"
    using all split by (intro poll_loop_run) (simp_all add: len maxAttempts_def)
  then have "poll_loop 0 w =
      poll_loop maxAttempts
        (w\<lparr>poll_script := drop 60 rs @ rest, poll_requests := poll_requests w + 60,
           slept := slept w + 300\<rparr>)"
    unfolding len by (simp add: maxAttempts_def)
  then show "pollPrediction pid w =
      (Inl (TimedOut 60),
       w\<lparr>poll_script := drop 60 rs @ rest, poll_requests := poll_requests w + 60,
          slept := slept w + 300\<rparr>)"
    by (simp add: pollPrediction_def poll_loop_exhausted) (simp add: maxAttempts_def)
next
  fix code p rest'
  assume short: "length rs < maxAttempts"
    and rest: "rest = Response code (Decoded p) # rest' \<and> \<not> in_progress p"
  let ?w1 = "w\<lparr>poll_script := rest, poll_requests := poll_requests w + length rs,
      slept := slept w + 5 * length rs\<rparr>"
  have "poll_loop 0 w = poll_loop (0 + length rs) ?w1"
    using assms short by (intro poll_loop_run) simp_all
  moreover have "poll_loop (length rs) ?w1 =
      ((if Status p = ''succeeded'' then
          (case extractImageURL (OutputRaw p) of
             Inl err \<Rightarrow> Inl (Wrap ''prediction succeeded but failed to extract image URL'' err)
           | Inr imageURL \<Rightarrow> Inr imageURL)
        else if Status p = ''failed'' then
          Inl (PredictionFailed (case Error p of None \<Rightarrow> ''unknown error'' | Some m \<Rightarrow> m))
        else if Status p = ''canceled'' then Inl PredictionCanceled
        else Inl (UnknownStatus (Status p))),
       ?w1\<lparr>poll_script := rest', poll_requests := poll_requests ?w1 + 1\<rparr>)"
    using short rest by (intro poll_loop_verdict) simp_all
  ultimately show "pollPrediction pid w =
      ((if Status p = ''succeeded'' then
          (case extractImageURL (OutputRaw p) of
             Inl err \<Rightarrow> Inl (Wrap ''prediction succeeded but failed to extract image URL'' err)
           | Inr imageURL \<Rightarrow> Inr imageURL)
        else if Status p = ''failed'' then
          Inl (PredictionFailed (case Error p of None \<Rightarrow> ''unknown error'' | Some m \<Rightarrow> m))
        else if Status p = ''canceled'' then Inl PredictionCanceled
        else Inl (UnknownStatus (Status p))),
       w\<lparr>poll_script := rest', poll_requests := poll_requests w + length rs + 1,
          slept := slept w + 5 * length rs\<rparr>)"
    by (simp add: pollPrediction_def)
qed

text \<open>
  Claim C8 as stated fails: a first reply with the status \<open>submitted\<close>, or with
  \<open>queued\<close>, ends the polling with an error, after one request and no sleep, and the
  reply that would have succeeded is never fetched.
\<close>

theorem pollPrediction_submitted_counterexample:
  "pollPrediction ''j1''
     (quiet_world\<lparr>poll_script :=
        [job ''submitted'' None, job ''succeeded'' (Some (JString ''https://x/a.png''))]\<rparr>) =
   (Inl (UnknownStatus ''submitted''),
    quiet_world\<lparr>poll_script := [job ''succeeded'' (Some (JString ''https://x/a.png''))],
      poll_requests := 1\<rparr>) \<and>
   pollPrediction ''j1''
     (quiet_world\<lparr>poll_script :=
        [job ''queued'' None, job ''succeeded'' (Some (JString ''https://x/a.png''))]\<rparr>) =
   (Inl (UnknownStatus ''queued''),
    quiet_world\<lparr>poll_script := [job ''succeeded'' (Some (JString ''https://x/a.png''))],
      poll_requests := 1\<rparr>)"
  by (simp add: pollPrediction_def poll_loop.simps next_poll_def job_def quiet_world_def
      maxAttempts_def)

theorem pollPrediction_protocol_witness:
  "pollPrediction ''j1''
     (quiet_world\<lparr>poll_script :=
        [job ''starting'' None, job ''processing'' None,
         job ''succeeded'' (Some (JString ''https://x/a.png''))]\<rparr>) =
   (Inr ''https://x/a.png'', quiet_world\<lparr>poll_script := [], poll_requests := 3, slept := 10\<rparr>) \<and>
   pollPrediction ''j1''
     (quiet_world\<lparr>poll_script := replicate 61 (job ''processing'' None)\<rparr>) =
   (Inl (TimedOut 60),
    quiet_world\<lparr>poll_script := [job ''processing'' None], poll_requests := 60, slept := 300\<rparr>)"
proof -
  let ?rs = "[job ''starting'' None, job ''processing'' None]"
  let ?done = "job ''succeeded'' (Some (JString ''https://x/a.png''))"
  let ?w = "quiet_world\<lparr>poll_script := ?rs @ [?done]\<rparr>"
  have run: "list_all still_running ?rs"
    by (simp add: job_def in_progress_def)
  have script: "poll_script ?w = ?rs @ [?done]"
    by simp
  have a: "pollPrediction ''j1'' ?w =
     (Inr ''https://x/a.png'', quiet_world\<lparr>poll_script := [], poll_requests := 3, slept := 10\<rparr>)"
    using pollPrediction_protocol [OF run script, of "''j1''"]
    by (simp add: job_def in_progress_def maxAttempts_def extractImageURL_def try_string_def
        quiet_world_def)
  let ?ts = "replicate 61 (job ''processing'' None)"
  let ?v = "quiet_world\<lparr>poll_script := ?ts @ []\<rparr>"
  have run': "list_all still_running ?ts"
    by (simp add: job_def in_progress_def list_all_iff)
  have script': "poll_script ?v = ?ts @ []"
    by simp
  have b: "pollPrediction ''j1'' ?v =
     (Inl (TimedOut 60),
      quiet_world\<lparr>poll_script := [job ''processing'' None], poll_requests := 60, slept := 300\<rparr>)"
    using pollPrediction_protocol [OF run' script', of "''j1''"]
    by (simp add: maxAttempts_def quiet_world_def)
  from a b show ?thesis by simp
qed

subsection \<open>The batch write\<close>

declare show_nat.simps [simp del]

lemma insert_all_Inr:
  "insert_all ps table fs = (Inr table', fs') \<Longrightarrow> table' = table @ ps"
proof (induction ps arbitrary: table fs)
  case Nil
  then show ?case by simp
next
  case (Cons p ps)
  obtain failed fs1 where pf: "pop_fault fs = (failed, fs1)"
    by (cases "pop_fault fs")
  with Cons.prems have "insert_all ps (table @ [p]) fs1 = (Inr table', fs')"
    by (simp split: if_splits)
  then have "table' = (table @ [p]) @ ps"
    by (rule Cons.IH)
  then show ?case by simp
qed

lemma insert_all_healthy_ok:
  "fst (insert_all ps table []) = Inr (table @ ps) \<longleftrightarrow> accepts table ps"
proof (induction ps arbitrary: table)
  case Nil
  then show ?case by simp
next
  case (Cons p ps)
  show ?case
  proof (cases "violates table p")
    case True
    then show ?thesis by simp
  next
    case False
    then show ?thesis using Cons.IH[of "table @ [p]"] by simp
  qed
qed

lemma insert_all_healthy_script: "snd (insert_all ps table []) = []"
  by (induction ps arbitrary: table) auto

lemma DB_SavePuzzles_rows:
  "DB_SavePuzzles date puzzles w = (res, w1) \<Longrightarrow>
     (case res of
        None \<Rightarrow> rows w1 = filter (\<lambda>p. Date p \<noteq> date) (rows w) @ puzzles
      | Some err \<Rightarrow> rows w1 = rows w)"
  unfolding DB_SavePuzzles_def
  by (auto split: prod.splits bool.splits sum.splits dest: insert_all_Inr)


lemma insert_all_Inl_Wrap:
  "insert_all ps table fs = (Inl err, fs') \<Longrightarrow> \<exists>ctx e. err = Wrap ctx e"
proof (induction ps arbitrary: table fs)
  case Nil
  then show ?case by simp
next
  case (Cons p ps)
  obtain failed fs1 where pf: "pop_fault fs = (failed, fs1)"
    by (cases "pop_fault fs")
  show ?case
  proof (cases "failed \<or> violates table p")
    case True
    with Cons.prems pf show ?thesis by auto
  next
    case False
    with Cons.prems pf have "insert_all ps (table @ [p]) fs1 = (Inl err, fs')"
      by simp
    then show ?thesis by (rule Cons.IH)
  qed
qed

lemma DB_SavePuzzles_healthy:
  "db_script w = [] \<Longrightarrow>
   fst (DB_SavePuzzles date puzzles w) = None \<longleftrightarrow>
     accepts (filter (\<lambda>p. Date p \<noteq> date) (rows w)) puzzles"
proof -
  assume h: "db_script w = []"
  let ?t = "filter (\<lambda>p. Date p \<noteq> date) (rows w)"
  obtain r fs where ia: "insert_all puzzles ?t [] = (r, fs)"
    by (cases "insert_all puzzles ?t []")
  have fs: "fs = []" using insert_all_healthy_script[of puzzles ?t] ia by simp
  show ?thesis
  proof (cases r)
    case (Inl err)
    with ia have "\<not> accepts ?t puzzles"
      using insert_all_healthy_ok[of puzzles ?t] by simp
    with Inl ia h show ?thesis by (simp add: DB_SavePuzzles_def)
  next
    case (Inr t')
    with ia have "t' = ?t @ puzzles" by (auto dest: insert_all_Inr)
    with Inr ia have "accepts ?t puzzles"
      using insert_all_healthy_ok[of puzzles ?t] by simp
    with Inr ia h fs show ?thesis by (simp add: DB_SavePuzzles_def)
  qed
qed

text \<open>
  Claim C4. \<open>SavePuzzles\<close> either succeeds, and then the table holds the rows of the
  other dates followed by all the supplied records (so the date's records are exactly
  the supplied ones when they carry that date), or it returns an error, and then the
  table is unchanged. The rows the date had before play no part in whether it succeeds:
  on a connection that does not fail it succeeds exactly when the constraints admit the
  supplied records next to the rows of the other dates.
\<close>

theorem SavePuzzles_atomic:
  assumes "Store_SavePuzzles date puzzles w = (res, w1)"
  shows "(res = None \<longrightarrow> rows w1 = filter (\<lambda>p. Date p \<noteq> date) (rows w) @ puzzles) \<and>
         (res = None \<and> list_all (\<lambda>p. Date p = date) puzzles \<longrightarrow>
            filter (\<lambda>p. Date p = date) (rows w1) = puzzles) \<and>
         (res \<noteq> None \<longrightarrow> rows w1 = rows w) \<and>
         (db_script w = [] \<longrightarrow>
            (res = None \<longleftrightarrow> accepts (filter (\<lambda>p. Date p \<noteq> date) (rows w)) puzzles))"
proof -
  from assms have sp: "DB_SavePuzzles date puzzles w = (res, w1)"
    by (simp add: Store_SavePuzzles_def)
  have ok: "res = None \<Longrightarrow> rows w1 = filter (\<lambda>p. Date p \<noteq> date) (rows w) @ puzzles"
    using DB_SavePuzzles_rows[OF sp] by simp
  have view: "filter (\<lambda>p. Date p = date) (rows w1) = puzzles"
    if "res = None" "list_all (\<lambda>p. Date p = date) puzzles"
  proof -
    have "filter (\<lambda>p. Date p = date) (filter (\<lambda>p. Date p \<noteq> date) (rows w)) = []"
      by (simp add: filter_empty_conv)
    moreover have "filter (\<lambda>p. Date p = date) puzzles = puzzles"
      using that(2) by (simp add: list_all_iff)
    ultimately show ?thesis using ok[OF that(1)] by simp
  qed
  have err: "res \<noteq> None \<Longrightarrow> rows w1 = rows w"
    using DB_SavePuzzles_rows[OF sp] by (cases res) simp_all
  have healthy: "db_script w = [] \<Longrightarrow>
      (res = None \<longleftrightarrow> accepts (filter (\<lambda>p. Date p \<noteq> date) (rows w)) puzzles)"
    using DB_SavePuzzles_healthy[of w date puzzles] sp by simp
  from ok view err healthy show ?thesis by blast
qed

theorem SavePuzzles_atomic_witness:
  "Store_SavePuzzles ''2025-12-13''
     [puzzle_at ''2025-12-13'' 0 ''time flies'', puzzle_at ''2025-12-13'' 1 ''rainbow'']
     (quiet_world\<lparr>rows := [puzzle_at ''2025-12-13'' 0 ''old'', puzzle_at ''2025-12-12'' 0 ''eve'']\<rparr>) =
   (None,
    quiet_world\<lparr>rows := [puzzle_at ''2025-12-12'' 0 ''eve'', puzzle_at ''2025-12-13'' 0 ''time flies'',
                          puzzle_at ''2025-12-13'' 1 ''rainbow'']\<rparr>) \<and>
   filter (\<lambda>p. Date p = ''2025-12-13'')
     [puzzle_at ''2025-12-12'' 0 ''eve'', puzzle_at ''2025-12-13'' 0 ''time flies'',
      puzzle_at ''2025-12-13'' 1 ''rainbow''] =
     [puzzle_at ''2025-12-13'' 0 ''time flies'', puzzle_at ''2025-12-13'' 1 ''rainbow''] \<and>
   accepts [puzzle_at ''2025-12-12'' 0 ''eve'']
     [puzzle_at ''2025-12-13'' 0 ''time flies'', puzzle_at ''2025-12-13'' 1 ''rainbow''] \<and>
   fst (Store_SavePuzzles ''2025-12-13''
     [puzzle_at ''2025-12-13'' 0 ''time flies'', puzzle_at ''2025-12-13'' 1 ''rainbow'']
     (quiet_world\<lparr>rows := [puzzle_at ''2025-12-13'' 0 ''old''],
        db_script := [False, False, False, False, True]\<rparr>)) =
     Some (Wrap ''failed to insert puzzle 2025-12-13-1'' SqlFailed) \<and>
   rows (snd (Store_SavePuzzles ''2025-12-13''
     [puzzle_at ''2025-12-13'' 0 ''time flies'', puzzle_at ''2025-12-13'' 1 ''rainbow'']
     (quiet_world\<lparr>rows := [puzzle_at ''2025-12-13'' 0 ''old''],
        db_script := [False, False, False, False, True]\<rparr>))) =
     [puzzle_at ''2025-12-13'' 0 ''old'']"
proof -
  let ?new = "[puzzle_at ''2025-12-13'' 0 ''time flies'', puzzle_at ''2025-12-13'' 1 ''rainbow'']"
  let ?w = "quiet_world\<lparr>rows := [puzzle_at ''2025-12-13'' 0 ''old'', puzzle_at ''2025-12-12'' 0 ''eve'']\<rparr>"
  let ?w1 = "quiet_world\<lparr>rows := puzzle_at ''2025-12-12'' 0 ''eve'' # ?new\<rparr>"
  have run: "Store_SavePuzzles ''2025-12-13'' ?new ?w = (None, ?w1)"
    by (simp add: Store_SavePuzzles_def DB_SavePuzzles_def quiet_world_def puzzle_at_def
        violates_def show_nat.simps)
  have dated: "list_all (\<lambda>p. Date p = ''2025-12-13'') ?new"
    by (simp add: puzzle_at_def)
  have script: "db_script ?w = []"
    by (simp add: quiet_world_def)
  have old: "filter (\<lambda>p. Date p \<noteq> ''2025-12-13'') (rows ?w) = [puzzle_at ''2025-12-12'' 0 ''eve'']"
    by (simp add: puzzle_at_def)
  from SavePuzzles_atomic [OF run] dated script old run
  have good: "Store_SavePuzzles ''2025-12-13'' ?new ?w = (None, ?w1) \<and>
      filter (\<lambda>p. Date p = ''2025-12-13'') (puzzle_at ''2025-12-12'' 0 ''eve'' # ?new) = ?new \<and>
      accepts [puzzle_at ''2025-12-12'' 0 ''eve''] ?new"
    by (simp add: puzzle_at_def)
  let ?v = "quiet_world\<lparr>rows := [puzzle_at ''2025-12-13'' 0 ''old''],
      db_script := [False, False, False, False, True]\<rparr>"
  let ?err = "Wrap ''failed to insert puzzle 2025-12-13-1'' SqlFailed"
  have f: "fst (Store_SavePuzzles ''2025-12-13'' ?new ?v) = Some ?err"
    by (simp add: Store_SavePuzzles_def DB_SavePuzzles_def quiet_world_def puzzle_at_def
        violates_def show_nat.simps)
  then have fail: "Store_SavePuzzles ''2025-12-13'' ?new ?v =
      (Some ?err, snd (Store_SavePuzzles ''2025-12-13'' ?new ?v))"
    by (metis prod.collapse)
  from SavePuzzles_atomic [OF fail]
  have bad: "rows (snd (Store_SavePuzzles ''2025-12-13'' ?new ?v)) = [puzzle_at ''2025-12-13'' 0 ''old'']"
    by simp
  from good f bad show ?thesis by simp
qed

subsection \<open>The existence check\<close>

text \<open>
  Claim C10. When the query of \<open>DB.HasPuzzlesForDate\<close> returns an error,
  \<open>Store.HasPuzzlesForDate\<close> answers false, as it does for an empty table on a working
  connection, and \<open>TriggerManualGeneration\<close> for a valid date does not stop with
  "puzzles already exist": it goes on to produce.
\<close>

theorem HasPuzzlesForDate_hides_errors:
  assumes "DB_HasPuzzlesForDate date w = ((b, Some err), w1)"
  shows "Store_HasPuzzlesForDate date w = (False, w1) \<and>
         fst (Store_HasPuzzlesForDate date w) =
           fst (Store_HasPuzzlesForDate date (w\<lparr>rows := [], db_script := []\<rparr>)) \<and>
         (ValidateDate date = None \<longrightarrow>
            fst (TriggerManualGeneration parse s date w) \<noteq> Some (AlreadyExist date))"
proof -
  have a: "Store_HasPuzzlesForDate date w = (False, w1)"
    using assms by (simp add: Store_HasPuzzlesForDate_def)
  have b: "fst (Store_HasPuzzlesForDate date (w\<lparr>rows := [], db_script := []\<rparr>)) = False"
    by (simp add: Store_HasPuzzlesForDate_def DB_HasPuzzlesForDate_def)
  have c: "fst (TriggerManualGeneration parse s date w) \<noteq> Some (AlreadyExist date)"
    if v: "ValidateDate date = None"
  proof -
    obtain r g1 w2 where g: "GenerateRebusPuzzles parse (generator s) date (store s) w1 = (r, g1, w2)"
      by (cases "GenerateRebusPuzzles parse (generator s) date (store s) w1") auto
    show ?thesis
    proof (cases r)
      case (Inl e)
      with v a g show ?thesis by (simp add: TriggerManualGeneration_def)
    next
      case (Inr puzzles)
      obtain res w3 where sp: "DB_SavePuzzles date puzzles w2 = (res, w3)"
        by (cases "DB_SavePuzzles date puzzles w2")
      have "res \<noteq> Some (AlreadyExist date)"
        using sp unfolding DB_SavePuzzles_def
        by (auto split: prod.splits bool.splits sum.splits dest: insert_all_Inl_Wrap)
      with v a g Inr sp show ?thesis
        by (simp add: TriggerManualGeneration_def Store_SavePuzzles_def)
    qed
  qed
  from a b c show ?thesis by simp
qed


theorem HasPuzzlesForDate_hides_errors_witness:
  "Store_HasPuzzlesForDate ''2025-12-13''
     (quiet_world\<lparr>rows := [puzzle_at ''2025-12-13'' 0 ''old''], db_script := [True]\<rparr>) =
   (False, quiet_world\<lparr>rows := [puzzle_at ''2025-12-13'' 0 ''old''], db_script := []\<rparr>) \<and>
   ValidateDate ''2025-12-13'' = None \<and>
   fst (TriggerManualGeneration no_parse scheduler_0600 ''2025-12-13''
     (quiet_world\<lparr>rows := [puzzle_at ''2025-12-13'' 0 ''old''], db_script := [True]\<rparr>)) \<noteq>
     Some (AlreadyExist ''2025-12-13'')"
proof -
  let ?w = "quiet_world\<lparr>rows := [puzzle_at ''2025-12-13'' 0 ''old''], db_script := [True]\<rparr>"
  have q: "DB_HasPuzzlesForDate ''2025-12-13'' ?w =
      ((False, Some (Wrap ''failed to check puzzles'' SqlFailed)),
       quiet_world\<lparr>rows := [puzzle_at ''2025-12-13'' 0 ''old''], db_script := []\<rparr>)"
    by (simp add: DB_HasPuzzlesForDate_def quiet_world_def)
  have v: "ValidateDate ''2025-12-13'' = None"
    by (simp add: ValidateDate_def time_Parse_ok_def is_digit_def number_of_def daysIn_def)
  from HasPuzzlesForDate_hides_errors [OF q, of no_parse scheduler_0600] v show ?thesis
    by simp
qed

subsection \<open>What the generator leaves alone\<close>















subsection \<open>The concrete replies\<close>

lemma valid_today: "ValidateDate ''2025-12-13'' = None"
  by (simp add: ValidateDate_def time_Parse_ok_def is_digit_def number_of_def daysIn_def)

lemma unmarshal_batch: "unmarshal_prompts batch_json = Some batch_prompts"
  by (simp add: batch_json_def object_json_def set_field_def fold_key_def lower_char_def
      batch_prompts_def)

lemma length_batch_text: "length batch_text = 219"
  by (simp add: batch_text_def object_text_def dq_def)

lemma bracket_first: "strings_Index reply_text CHR ''['' = Some 15"
  by (simp add: reply_text_def batch_text_def object_text_def dq_def)

lemma bracket_last: "strings_LastIndex reply_text CHR '']'' = Some 233"
  by (simp add: strings_LastIndex_def reply_text_def batch_text_def object_text_def dq_def)

lemma bracket_slice: "take (233 + 1 - 15) (drop 15 reply_text) = batch_text"
  by (simp add: reply_text_def length_batch_text)

lemmas pipeline_defs =
  TriggerManualGeneration_def Store_HasPuzzlesForDate_def
  DB_HasPuzzlesForDate_def GenerateRebusPuzzles_def scheduler_0600_def
  GetPromptsFromClaude_def parse_batch_def
  ready_world_def quiet_world_def batch_prompts_def created_def rendered_def png_def
  GenerateImageFromPrompt_def createPrediction_def getModelVersion_def
  fetchLatestModelVersion_def pollPrediction_def poll_loop.simps next_poll_def job_def
  maxAttempts_def extractImageURL_def try_string_def downloadImage_def SaveImage_def
  GetImageURL_def GetImagePath_def show_nat.simps Store_SavePuzzles_def DB_SavePuzzles_def
  violates_def strings_ToLower_def strings_TrimSpace_def is_space_def lower_char_def

subsection \<open>The scheduler\<close>

text \<open>
  On a connection that does not fail, \<open>generatePuzzlesForToday\<close> returns at one of its
  two existence checks whatever the table holds: it never reaches the generator.
\<close>

theorem generatePuzzlesForToday_never_generates:
  "db_script w = [] \<Longrightarrow>
   generatePuzzlesForToday parse s w =
     (if filter (\<lambda>p. Date p = today w) (rows w) \<noteq> [] then AlreadyExistSkipping
      else DoNotExistNotGenerating, s, w)"
  by (simp add: generatePuzzlesForToday_def GetTodayDate_def Store_HasPuzzlesForDate_def
      DB_HasPuzzlesForDate_def)

theorem generatePuzzlesForToday_never_generates_witness:
  "generatePuzzlesForToday parse_batch scheduler_0600 ready_world =
     (DoNotExistNotGenerating, scheduler_0600, ready_world)"
proof -
  have h: "db_script ready_world = []"
    by (simp add: ready_world_def quiet_world_def)
  from generatePuzzlesForToday_never_generates [OF h, of parse_batch scheduler_0600]
  show ?thesis by (simp add: ready_world_def quiet_world_def)
qed

text \<open>
  Claim C1 (the code departs from it). With an empty table for today and every service
  ready to deliver the batch, \<open>TriggerTodayGeneration\<close> returns \<open>(false, error)\<close>
  with the error "failed to generate puzzles for today", sends no request and leaves the
  table empty.
\<close>

theorem TriggerTodayGeneration_never_produces:
  "TriggerTodayGeneration parse_batch scheduler_0600 ready_world =
     ((False, Some FailedToGenerateToday), scheduler_0600, ready_world)"
  by (simp add: TriggerTodayGeneration_def generatePuzzlesForToday_def GetTodayDate_def
      Store_HasPuzzlesForDate_def DB_HasPuzzlesForDate_def ready_world_def quiet_world_def)

text \<open>
  On the same input the sibling path \<open>TriggerManualGeneration\<close> produces the batch:
  five records at the positions 0 to 4.
\<close>

theorem TriggerManualGeneration_produces_batch:
  "fst (TriggerManualGeneration parse_batch scheduler_0600 ''2025-12-13'' ready_world) = None \<and>
   map ID (rows (snd (snd (TriggerManualGeneration parse_batch scheduler_0600 ''2025-12-13''
     ready_world)))) =
     [''2025-12-13-0'', ''2025-12-13-1'', ''2025-12-13-2'', ''2025-12-13-3'', ''2025-12-13-4''] \<and>
   map Index (rows (snd (snd (TriggerManualGeneration parse_batch scheduler_0600 ''2025-12-13''
     ready_world)))) = [0, 1, 2, 3, 4] \<and>
   map Answer (rows (snd (snd (TriggerManualGeneration parse_batch scheduler_0600 ''2025-12-13''
     ready_world)))) = [''time flies'', ''a1'', ''a2'', ''a3'', ''a4'']"
  using bracket_slice
  by (simp add: pipeline_defs valid_today bracket_first bracket_last unmarshal_batch)

text \<open>
  Claim C2 (the code departs from it). At 07:00, with the schedule at 06:00, an empty
  table for today and every service ready, \<open>Start\<close> runs the catch-up, which logs
  "Puzzles do not exist, not generating" and produces nothing.
\<close>

theorem Start_catch_up_never_produces:
  "Start parse_batch scheduler_0600 ready_world =
     (Some DoNotExistNotGenerating, scheduler_0600\<lparr>running := True\<rparr>, ready_world)"
  by (simp add: Start_def checkAndRunIfNeeded_def generatePuzzlesForToday_def GetTodayDate_def
      Store_HasPuzzlesForDate_def DB_HasPuzzlesForDate_def ready_world_def quiet_world_def
      scheduler_0600_def)

text \<open>With a batch for today, \<open>Start\<close> runs no catch-up.\<close>

theorem Start_existing_batch:
  "\<not> running s \<Longrightarrow> Store_HasPuzzlesForDate (GetTodayDate w) w = (True, w1) \<Longrightarrow>
   Start parse s w = (None, s\<lparr>running := True\<rparr>, w1)"
  by (simp add: Start_def checkAndRunIfNeeded_def)

theorem Start_existing_batch_witness:
  "Start parse_batch scheduler_0600 (ready_world\<lparr>rows := [puzzle_at ''2025-12-13'' 0 ''old'']\<rparr>) =
     (None, scheduler_0600\<lparr>running := True\<rparr>,
      ready_world\<lparr>rows := [puzzle_at ''2025-12-13'' 0 ''old'']\<rparr>)"
proof -
  let ?w = "ready_world\<lparr>rows := [puzzle_at ''2025-12-13'' 0 ''old'']\<rparr>"
  have idle: "\<not> running scheduler_0600"
    by (simp add: scheduler_0600_def)
  have e: "Store_HasPuzzlesForDate (GetTodayDate ?w) ?w = (True, ?w)"
    by (simp add: Store_HasPuzzlesForDate_def DB_HasPuzzlesForDate_def GetTodayDate_def
        ready_world_def quiet_world_def puzzle_at_def)
  from Start_existing_batch [OF idle e, of parse_batch] show ?thesis .
qed

lemma Store_HasPuzzlesForDate_frame:
  "Store_HasPuzzlesForDate date w = (b, w1) \<Longrightarrow> w1 = w\<lparr>db_script := snd (pop_fault (db_script w))\<rparr>"
  by (auto simp: Store_HasPuzzlesForDate_def DB_HasPuzzlesForDate_def
      split: prod.splits option.splits if_splits)

text \<open>
  Claim C5, as amended. When the table holds a batch for today and the existence query
  of each of two successive calls of \<open>TriggerTodayGeneration\<close> succeeds, both calls
  return \<open>(false, nil)\<close> and change nothing but the script of the database: the table
  is as before the first call.
\<close>

theorem TriggerTodayGeneration_idempotent:
  assumes "filter (\<lambda>p. Date p = GetTodayDate w) (rows w) \<noteq> []"
    and "\<not> fst (pop_fault (db_script w))"
    and "\<not> fst (pop_fault (snd (pop_fault (db_script w))))"
  shows "TriggerTodayGeneration parse s w =
           ((False, None), s, w\<lparr>db_script := snd (pop_fault (db_script w))\<rparr>) \<and>
         TriggerTodayGeneration parse s (w\<lparr>db_script := snd (pop_fault (db_script w))\<rparr>) =
           ((False, None), s,
            w\<lparr>db_script := snd (pop_fault (snd (pop_fault (db_script w))))\<rparr>) \<and>
         rows (snd (snd (TriggerTodayGeneration parse s
           (snd (snd (TriggerTodayGeneration parse s w)))))) = rows w"
proof -
  let ?w1 = "w\<lparr>db_script := snd (pop_fault (db_script w))\<rparr>"
  let ?w2 = "w\<lparr>db_script := snd (pop_fault (snd (pop_fault (db_script w))))\<rparr>"
  have e1: "Store_HasPuzzlesForDate (GetTodayDate w) w = (True, ?w1)"
    using assms(1,2)
    by (cases "pop_fault (db_script w)")
       (simp add: Store_HasPuzzlesForDate_def DB_HasPuzzlesForDate_def)
  have e2: "Store_HasPuzzlesForDate (GetTodayDate ?w1) ?w1 = (True, ?w2)"
    using assms(1,3)
    by (cases "pop_fault (snd (pop_fault (db_script w)))")
       (simp add: Store_HasPuzzlesForDate_def DB_HasPuzzlesForDate_def GetTodayDate_def)
  have a: "TriggerTodayGeneration parse s w = ((False, None), s, ?w1)"
    using e1 by (simp add: TriggerTodayGeneration_def)
  have b: "TriggerTodayGeneration parse s ?w1 = ((False, None), s, ?w2)"
    using e2 by (simp add: TriggerTodayGeneration_def)
  from a b show ?thesis by simp
qed

theorem TriggerTodayGeneration_idempotent_witness:
  "TriggerTodayGeneration parse_batch scheduler_0600
     (ready_world\<lparr>rows := [puzzle_at ''2025-12-13'' 0 ''old'']\<rparr>) =
     ((False, None), scheduler_0600, ready_world\<lparr>rows := [puzzle_at ''2025-12-13'' 0 ''old'']\<rparr>) \<and>
   rows (snd (snd (TriggerTodayGeneration parse_batch scheduler_0600
     (snd (snd (TriggerTodayGeneration parse_batch scheduler_0600
        (ready_world\<lparr>rows := [puzzle_at ''2025-12-13'' 0 ''old'']\<rparr>))))))) =
     [puzzle_at ''2025-12-13'' 0 ''old'']"
proof -
  let ?w = "ready_world\<lparr>rows := [puzzle_at ''2025-12-13'' 0 ''old'']\<rparr>"
  have batch: "filter (\<lambda>p. Date p = GetTodayDate ?w) (rows ?w) \<noteq> []"
    by (simp add: GetTodayDate_def ready_world_def quiet_world_def puzzle_at_def)
  have script: "db_script ?w = []"
    by (simp add: ready_world_def quiet_world_def)
  have q1: "\<not> fst (pop_fault (db_script ?w))"
    by (simp add: script)
  have q2: "\<not> fst (pop_fault (snd (pop_fault (db_script ?w))))"
    by (simp add: script)
  have same: "?w\<lparr>db_script := snd (pop_fault (db_script ?w))\<rparr> = ?w"
    by (simp add: ready_world_def quiet_world_def)
  from TriggerTodayGeneration_idempotent [OF batch q1 q2, of parse_batch scheduler_0600] same
  show ?thesis by simp
qed

text \<open>
  Claim C5 as stated fails. With the batch in the table and an existence query that
  fails, the call returns \<open>(true, nil)\<close>; with two queries that fail it runs the
  generator and replaces the batch.
\<close>

theorem TriggerTodayGeneration_failing_query_counterexample:
  "TriggerTodayGeneration parse_batch scheduler_0600
     (ready_world\<lparr>rows := [puzzle_at ''2025-12-13'' 0 ''old''], db_script := [True]\<rparr>) =
     ((True, None), scheduler_0600,
      ready_world\<lparr>rows := [puzzle_at ''2025-12-13'' 0 ''old''], db_script := []\<rparr>) \<and>
   fst (TriggerTodayGeneration parse_batch scheduler_0600
     (ready_world\<lparr>rows := [puzzle_at ''2025-12-13'' 0 ''old''], db_script := [True, True]\<rparr>)) =
     (True, None) \<and>
   map Answer (rows (snd (snd (TriggerTodayGeneration parse_batch scheduler_0600
     (ready_world\<lparr>rows := [puzzle_at ''2025-12-13'' 0 ''old''], db_script := [True, True]\<rparr>))))) =
     [''time flies'', ''a1'', ''a2'', ''a3'', ''a4'']"
  using bracket_slice
  by (simp add: TriggerTodayGeneration_def generatePuzzlesForToday_def GetTodayDate_def Let_def
      pipeline_defs puzzle_at_def bracket_first bracket_last unmarshal_batch)



subsection \<open>The prompt source\<close>


text \<open>
  Claim C6, as amended. A call of \<open>GetPromptsFromClaude\<close> sends at most one request and
  never evicts or changes a cache entry. A call that finds the date cached returns the
  cached sequence, sends no request and changes nothing. A call that fails leaves the
  cache as it was. A call that succeeds leaves the cache as it was but for the date,
  which now holds the sequence returned, and from a date that was not cached it sends
  exactly one request; every later call for that date, in whatever world, returns the
  same sequence and touches neither the world nor the cache.
\<close>

theorem prompt_cache_once:
  assumes "GetPromptsFromClaude parse pg date w = (r, pg1, w1)"
  shows "claude_requests w1 \<le> claude_requests w + 1 \<and>
         (\<forall>d ps. promptCache pg d = Some ps \<longrightarrow> promptCache pg1 d = Some ps) \<and>
         (\<forall>prompts. r = Inr prompts \<longrightarrow>
            promptCache pg1 date = Some prompts \<and>
            (\<forall>parse' w'. GetPromptsFromClaude parse' pg1 date w' = (Inr prompts, pg1, w'))) \<and>
         (\<forall>err. r = Inl err \<longrightarrow> pg1 = pg) \<and>
         (\<forall>prompts. r = Inr prompts \<longrightarrow>
            pg1 = pg\<lparr>promptCache := (promptCache pg)(date \<mapsto> prompts)\<rparr>) \<and>
         (\<forall>cached. promptCache pg date = Some cached \<longrightarrow>
            r = Inr cached \<and> pg1 = pg \<and> w1 = w) \<and>
         (\<forall>prompts. promptCache pg date = None \<and> r = Inr prompts \<longrightarrow>
            claude_requests w1 = claude_requests w + 1)"
proof (cases "promptCache pg date")
  case (Some cached)
  with assms have *: "r = Inr cached" "pg1 = pg" "w1 = w"
    by (simp_all add: GetPromptsFromClaude_def)
  have idem: "pg\<lparr>promptCache := (promptCache pg)(date \<mapsto> cached)\<rparr> = pg"
    using Some by (simp add: fun_upd_idem)
  have again: "GetPromptsFromClaude parse' pg date w' = (Inr cached, pg, w')" for parse' w'
    using Some by (simp add: GetPromptsFromClaude_def)
  show ?thesis
    unfolding * using Some idem again by simp
next
  case None
  have req: "claude_requests w1 \<le> claude_requests w + 1"
    using assms None unfolding GetPromptsFromClaude_def Let_def
    by (cases "pop (claude_script w)"; cases "fst (pop (claude_script w))")
       (auto split: body.splits list.splits option.splits if_splits prod.splits)
  have upd: "pg1 = pg\<lparr>promptCache := (promptCache pg)(date \<mapsto> prompts)\<rparr>"
    if "r = Inr prompts" for prompts
    using that assms None unfolding GetPromptsFromClaude_def Let_def
    by (auto split: reply.splits body.splits list.splits option.splits if_splits prod.splits)
  have fail: "pg1 = pg" if "r = Inl err" for err
    using that assms None unfolding GetPromptsFromClaude_def Let_def
    by (auto split: reply.splits body.splits list.splits option.splits if_splits prod.splits)
  have keep: "promptCache pg1 d = Some ps" if "promptCache pg d = Some ps" for d ps
  proof (cases r)
    case (Inl err)
    with fail that show ?thesis by simp
  next
    case (Inr prompts)
    from that None have "d \<noteq> date" by auto
    with upd[OF Inr] that show ?thesis by simp
  qed
  have hit: "promptCache pg1 date = Some prompts" if "r = Inr prompts" for prompts
    using upd[OF that] by simp
  have again: "GetPromptsFromClaude parse' pg1 date w' = (Inr prompts, pg1, w')"
    if "r = Inr prompts" for prompts parse' w'
    using hit[OF that] by (simp add: GetPromptsFromClaude_def)
  have one: "claude_requests w1 = claude_requests w + 1" if "r = Inr prompts" for prompts
    using that assms None unfolding GetPromptsFromClaude_def Let_def
    by (auto split: reply.splits body.splits list.splits option.splits if_splits prod.splits)
  show ?thesis
  proof (intro conjI allI impI)
    show "claude_requests w1 \<le> claude_requests w + 1" by (rule req)
  next
    fix d ps assume "promptCache pg d = Some ps"
    then show "promptCache pg1 d = Some ps" by (rule keep)
  next
    fix prompts assume "r = Inr prompts"
    then show "promptCache pg1 date = Some prompts" by (rule hit)
  next
    fix prompts parse' w' assume "r = Inr prompts"
    then show "GetPromptsFromClaude parse' pg1 date w' = (Inr prompts, pg1, w')" by (rule again)
  next
    fix err assume "r = Inl err"
    then show "pg1 = pg" by (rule fail)
  next
    fix prompts assume "r = Inr prompts"
    then show "pg1 = pg\<lparr>promptCache := (promptCache pg)(date \<mapsto> prompts)\<rparr>" by (rule upd)
  next
    fix cached assume "promptCache pg date = Some cached"
    with None show "r = Inr cached" "pg1 = pg" "w1 = w" by simp_all
  next
    fix prompts assume "promptCache pg date = None \<and> r = Inr prompts"
    then show "claude_requests w1 = claude_requests w + 1" using one by blast
  qed
qed

theorem prompt_cache_once_witness:
  "GetPromptsFromClaude parse_batch fresh_prompts ''2025-12-13'' ready_world =
     (Inr batch_prompts, fresh_prompts\<lparr>promptCache := [''2025-12-13'' \<mapsto> batch_prompts]\<rparr>,
      ready_world\<lparr>claude_script := [], claude_requests := 1\<rparr>) \<and>
   GetPromptsFromClaude parse_batch
     (fresh_prompts\<lparr>promptCache := [''2025-12-13'' \<mapsto> batch_prompts]\<rparr>) ''2025-12-13''
     (ready_world\<lparr>claude_script := [], claude_requests := 1\<rparr>) =
     (Inr batch_prompts, fresh_prompts\<lparr>promptCache := [''2025-12-13'' \<mapsto> batch_prompts]\<rparr>,
      ready_world\<lparr>claude_script := [], claude_requests := 1\<rparr>) \<and>
   fst (GetPromptsFromClaude no_parse
        (fresh_prompts\<lparr>promptCache := [''2025-12-13'' \<mapsto> batch_prompts]\<rparr>) ''2025-12-14''
        quiet_world) = Inl (Wrap ''failed to call Claude API'' TransportFailed) \<and>
   fst (snd (GetPromptsFromClaude no_parse
        (fresh_prompts\<lparr>promptCache := [''2025-12-13'' \<mapsto> batch_prompts]\<rparr>) ''2025-12-14''
        quiet_world)) = fresh_prompts\<lparr>promptCache := [''2025-12-13'' \<mapsto> batch_prompts]\<rparr>"
proof -
  let ?pg = "fresh_prompts\<lparr>promptCache := [''2025-12-13'' \<mapsto> batch_prompts]\<rparr>"
  let ?w = "ready_world\<lparr>claude_script := [], claude_requests := 1\<rparr>"
  have miss: "promptCache fresh_prompts ''2025-12-13'' = None"
    by (simp add: fresh_prompts_def)
  have first: "GetPromptsFromClaude parse_batch fresh_prompts ''2025-12-13'' ready_world =
      (Inr batch_prompts, ?pg, ?w)"
    using bracket_slice
    by (simp add: GetPromptsFromClaude_def bracket_first bracket_last parse_batch_def
        unmarshal_batch ready_world_def quiet_world_def batch_prompts_def fresh_prompts_def)
  note after_first = prompt_cache_once [OF first]
  have second: "GetPromptsFromClaude parse_batch ?pg ''2025-12-13'' ?w = (Inr batch_prompts, ?pg, ?w)"
    by (rule after_first [THEN conjunct2, THEN conjunct2, THEN conjunct1, rule_format, OF refl,
          THEN conjunct2, rule_format])
  have once: "claude_requests ?w = claude_requests ready_world + 1"
    by (rule after_first [THEN conjunct2, THEN conjunct2, THEN conjunct2, THEN conjunct2,
          THEN conjunct2, THEN conjunct2, rule_format, OF conjI [OF miss refl]])
  have cached: "promptCache ?pg ''2025-12-13'' = Some batch_prompts"
    by simp
  have still: "promptCache ?pg ''2025-12-13'' = Some batch_prompts"
    by (rule prompt_cache_once [OF second, THEN conjunct2, THEN conjunct1, rule_format, OF cached])
  let ?other = "GetPromptsFromClaude no_parse ?pg ''2025-12-14'' quiet_world"
  have f: "fst ?other = Inl (Wrap ''failed to call Claude API'' TransportFailed)"
    by (simp add: GetPromptsFromClaude_def quiet_world_def fresh_prompts_def)
  then have other: "?other =
      (Inl (Wrap ''failed to call Claude API'' TransportFailed), fst (snd ?other), snd (snd ?other))"
    by (metis prod.collapse)
  have kept: "fst (snd ?other) = ?pg"
    by (rule prompt_cache_once [OF other, THEN conjunct2, THEN conjunct2, THEN conjunct2,
          THEN conjunct1, rule_format, OF refl])
  from first second f kept show ?thesis by simp
qed

text \<open>
  Claim C6 as stated fails: a call that fails caches nothing, so the next call sends a
  second request, and the two calls return different results.
\<close>

theorem prompt_cache_failed_call_counterexample:
  "GetPromptsFromClaude parse_batch fresh_prompts ''2025-12-13''
     (quiet_world\<lparr>claude_script :=
        [Response 500 Unreadable, Response 200 (Decoded [reply_text])]\<rparr>) =
     (Inl (BadStatus 500), fresh_prompts,
      quiet_world\<lparr>claude_script := [Response 200 (Decoded [reply_text])],
        claude_requests := 1\<rparr>) \<and>
   GetPromptsFromClaude parse_batch fresh_prompts ''2025-12-13''
     (quiet_world\<lparr>claude_script := [Response 200 (Decoded [reply_text])],
        claude_requests := 1\<rparr>) =
     (Inr batch_prompts, fresh_prompts\<lparr>promptCache := [''2025-12-13'' \<mapsto> batch_prompts]\<rparr>,
      quiet_world\<lparr>claude_script := [], claude_requests := 2\<rparr>)"
  using bracket_slice
  by (simp add: GetPromptsFromClaude_def bracket_first bracket_last parse_batch_def
      unmarshal_batch quiet_world_def batch_prompts_def fresh_prompts_def)




text \<open>
  A reply whose last \<open>]\<close> stands more than one place before its first \<open>[\<close> makes the
  slice expression panic.
\<close>

theorem GetPromptsFromClaude_slice_panic:
  assumes "promptCache pg date = None"
    and "claude_script w = Response 200 (Decoded (responseText # others)) # rest"
    and "strings_Index responseText CHR ''['' = Some jsonStart"
    and "strings_LastIndex responseText CHR '']'' = Some jsonEnd"
    and "jsonEnd + 1 < jsonStart"
  shows "GetPromptsFromClaude parse pg date w =
           (Inl SliceBoundsPanic, pg,
            w\<lparr>claude_script := rest, claude_requests := claude_requests w + 1\<rparr>)"
  using assms by (simp add: GetPromptsFromClaude_def Let_def)

theorem GetPromptsFromClaude_slice_panic_witness:
  "GetPromptsFromClaude parse_batch fresh_prompts ''2025-12-13''
     (quiet_world\<lparr>claude_script := [Response 200 (Decoded [''] [''])]\<rparr>) =
   (Inl SliceBoundsPanic, fresh_prompts, quiet_world\<lparr>claude_script := [], claude_requests := 1\<rparr>)"
proof -
  let ?w = "quiet_world\<lparr>claude_script := [Response 200 (Decoded [''] [''])]\<rparr>"
  have miss: "promptCache fresh_prompts ''2025-12-13'' = None"
    by (simp add: fresh_prompts_def)
  have script: "claude_script ?w = Response 200 (Decoded (''] ['' # [])) # []"
    by simp
  have first: "strings_Index ''] ['' CHR ''['' = Some 2"
    by simp
  have last: "strings_LastIndex ''] ['' CHR '']'' = Some 0"
    by (simp add: strings_LastIndex_def)
  have order: "(0::nat) + 1 < 2"
    by simp
  from GetPromptsFromClaude_slice_panic [where parse = parse_batch, OF miss script first last order]
  show ?thesis by (simp add: quiet_world_def)
qed

end
